theory Spec2Isabelle
  imports Main
begin

section \<open>Data model\<close>

subsection \<open>JSON values, message literals and HTTP responses\<close>

text \<open>
  The text literals the handlers send are Japanese sentences. Each distinct literal of the
  source is one constructor of \<open>message\<close>; the same literal is always the same constructor,
  so equality of two messages is equality of the two source literals.
  \<^item> \<open>MsgFieldsRequired\<close>: register, the 400 answer ("username, password and device ID are
    required"), server.js line 66, part_000 line 74.
  \<^item> \<open>MsgDeviceAlreadyRegistered\<close>: register, the 403 answer, server.js line 76.
  \<^item> \<open>MsgUsernameExists\<close>: register, the 409 answer, server.js line 102.
  \<^item> \<open>MsgServerError\<close>: the 500 answer of every handler ("a server error occurred").
  \<^item> \<open>MsgUserNotFound\<close>: server.js line 111 ("user not found").
  \<^item> \<open>MsgWrongPassword\<close>: server.js line 118 ("the password is not correct").
  \<^item> \<open>MsgBadCredentials\<close>: part_000 lines 109 and 122 ("username or password is not
    correct").
  \<^item> \<open>MsgProgressLoadFailed\<close>: part_000 line 152.
  \<^item> \<open>MsgNoDataToSave\<close>: server.js line 145, part_000 line 160.
  \<^item> \<open>MsgProgressSaved\<close>: server.js line 155, part_000 line 167.
  \<^item> \<open>MsgUrlRequired\<close>, \<open>MsgInvalidUrl\<close>, \<open>MsgHostNotAllowed\<close>, \<open>MsgImageProxyError\<close>:
    part_000 lines 220, 223, 244 and 319.
  \<^item> \<open>MsgTooManyAccounts\<close>, \<open>MsgTooManyLogins\<close>: the messages of the two rate limiters,
    server.js lines 24 and 32.
\<close>

datatype message =
    MsgFieldsRequired
  | MsgDeviceAlreadyRegistered
  | MsgUsernameExists
  | MsgServerError
  | MsgUserNotFound
  | MsgWrongPassword
  | MsgBadCredentials
  | MsgProgressLoadFailed
  | MsgNoDataToSave
  | MsgProgressSaved
  | MsgUrlRequired
  | MsgInvalidUrl
  | MsgHostNotAllowed
  | MsgImageProxyError
  | MsgTooManyAccounts
  | MsgTooManyLogins

text \<open>
  A JSON value. \<open>JMsg\<close> is a JSON string whose content is one of the literals above;
  \<open>JStr\<close> is any other string. A string is the list of its characters, so its length is
  the number of its characters; the type \<open>char\<close> has the 256 characters U+0000 to U+00FF.
  Numbers are integers here. An object is the list of its members in the order written;
  two objects with the same members in another order are the same JSON document.
\<close>

datatype json =
    JNull
  | JBool bool
  | JNum int
  | JStr string
  | JMsg message
  | JArr "json list"
  | JObj "(string \<times> json) list"

datatype body =
    Json json
  | Text message
  | TextWith message string
  | StatusText
  | ErrorPage
  | RedirectBody
  | Binary "nat list"
  | PlaceholderSvg nat

record response =
  status :: nat
  headers :: "(string \<times> string) list"
  cookies :: "(string \<times> string) list"
  body :: body

definition res_json :: "nat \<Rightarrow> json \<Rightarrow> response" where
  "res_json st j = \<lparr>status = st, headers = [], cookies = [], body = Json j\<rparr>"

definition res_send :: "nat \<Rightarrow> message \<Rightarrow> response" where
  "res_send st m = \<lparr>status = st, headers = [], cookies = [], body = Text m\<rparr>"

definition sendStatus :: "nat \<Rightarrow> response" where
  "sendStatus st = \<lparr>status = st, headers = [], cookies = [], body = StatusText\<rparr>"

text \<open>The page that the default error handler of Express sends for an error of a middleware.\<close>

definition error_page :: "nat \<Rightarrow> response" where
  "error_page st = \<lparr>status = st, headers = [], cookies = [], body = ErrorPage\<rparr>"

definition error_json :: "message \<Rightarrow> json" where
  "error_json m = JObj [(''error'', JMsg m)]"

subsection \<open>Errors, the environment of a request, and the database\<close>

text \<open>
  A thrown JavaScript error: \<open>DbError c\<close> carries \<open>error.code = c\<close> (a PostgreSQL SQLSTATE),
  \<open>JsError\<close> is any error without a \<open>code\<close>.
\<close>

datatype error = DbError string | JsError

text \<open>The awaited calls of the handlers; each of them can reject.\<close>

datatype io =
    BcryptHash
  | PoolConnect
  | Begin
  | SelectDevice
  | RollbackDevice
  | InsertUser
  | InsertDevice
  | InsertProgress
  | Commit
  | RollbackCatch
  | SelectUser
  | SelectProgress
  | UpsertProgress

text \<open>The payload \<open>{id, username}\<close> that a token asserts.\<close>

record identity =
  ident_id :: nat
  ident_username :: string

text \<open>
  What a request finds outside the handler.
  \<^item> \<open>now\<close>: the clock.
  \<^item> \<open>fault\<close>: the awaited calls that reject for a reason that the statements below do not
    derive from the tables: a lost connection, a time-out, a row committed by a concurrent
    request, a value that the server refuses (a string with the character U+0000 in a
    \<open>jsonb\<close> value, a document nested too deep for \<open>JSON.stringify\<close> or for the server).
  \<^item> \<open>bcrypt_hash\<close>, \<open>bcrypt_compare\<close>, \<open>jwt_sign\<close>, \<open>jwt_verify\<close>: the libraries \<open>bcrypt\<close> and
    \<open>jsonwebtoken\<close>, which are not code of this repository. \<open>bcrypt_compare\<close> takes the
    password as the request holds it (\<open>None\<close> is \<open>undefined\<close>).
  \<^item> \<open>limited\<close>: the rate limiter of the route has counted too many requests from the address
    of this request (server.js lines 21-35).
  \<^item> \<open>body_less\<close>: what \<open>req.body\<close> is for a request in which \<open>express.json\<close> finds no
    document to parse: \<open>undefined\<close> or the empty object, depending on the version of
    Express, which the source does not fix.
  \<^item> \<open>jsonb_of_param\<close>: what the column \<open>data\<close> holds when the driver is handed a string, a
    number, a boolean or \<open>null\<close> as the parameter: the driver sends its text, which the
    server reads as a JSON text.
\<close>

record env =
  now :: nat
  fault :: "io \<Rightarrow> error option"
  bcrypt_hash :: "string \<Rightarrow> string"
  bcrypt_compare :: "string option \<Rightarrow> string \<Rightarrow> error + bool"
  jwt_sign :: "identity \<Rightarrow> string"
  jwt_verify :: "string \<Rightarrow> identity option"
  limited :: bool
  body_less :: "json option"
  jsonb_of_param :: "json \<Rightarrow> error + json"

text \<open>The three tables of \<open>initializeDatabase\<close> (server.js lines 163-215).\<close>

record user_row =
  users_id :: nat
  users_username :: string
  users_password :: string
  users_created_at :: nat

record device_row =
  devreg_id :: nat
  devreg_device_id :: string
  devreg_user_id :: nat
  devreg_created_at :: nat

text \<open>
  The column \<open>data\<close> holds a \<open>jsonb\<close> value, and a \<open>SELECT\<close> yields the value that was
  stored (up to the order of the members of an object).
\<close>

record progress_row =
  progress_data :: json
  progress_updated_at :: nat

text \<open>
  \<open>progress\<close> is keyed by its primary key \<open>user_id\<close>. The two sequences behind the
  \<open>SERIAL\<close> columns are part of the state: PostgreSQL does not roll a sequence back.
\<close>

record database =
  users :: "user_row list"
  users_id_seq :: nat
  device_registrations :: "device_row list"
  device_registrations_id_seq :: nat
  progress :: "nat \<Rightarrow> progress_row option"

definition rollback :: "database \<Rightarrow> database \<Rightarrow> database" where
  "rollback db w = db\<lparr>users_id_seq := users_id_seq w,
                      device_registrations_id_seq := device_registrations_id_seq w\<rparr>"

subsection \<open>SQL statements\<close>

definition select_device :: "string \<Rightarrow> database \<Rightarrow> device_row list" where
  "select_device d w = filter (\<lambda>r. devreg_device_id r = d) (device_registrations w)"

text \<open>
  A value for a column \<open>VARCHAR(n)\<close>: a longer string is cut to \<open>n\<close> characters when all
  the characters in excess are spaces, and is refused with SQLSTATE 22001 otherwise.
\<close>

definition varchar :: "nat \<Rightarrow> string \<Rightarrow> error + string" where
  "varchar n s =
     (if length s \<le> n then Inr s
      else if list_all (\<lambda>c. c = CHR '' '') (drop n s) then Inr (take n s)
      else Inl (DbError ''22001''))"

text \<open>
  \<open>INSERT INTO users (username, password) VALUES ($1, $2) RETURNING id, username\<close>.
  The values are fitted to \<open>VARCHAR(50)\<close> and \<open>VARCHAR(255)\<close> first; a refused value leaves
  the sequence untouched. Then the sequence advances and the primary key and the \<open>UNIQUE\<close>
  constraint (SQLSTATE 23505) are checked, on the values as stored.
\<close>

definition insert_user :: "nat \<Rightarrow> string \<Rightarrow> string \<Rightarrow> database \<Rightarrow> (error + user_row) \<times> database" where
  "insert_user t u h w =
     (case (varchar 50 u, varchar 255 h) of
        (Inr u', Inr h') \<Rightarrow>
          (let i = users_id_seq w;
               w1 = w\<lparr>users_id_seq := Suc i\<rparr>;
               row = \<lparr>users_id = i, users_username = u', users_password = h',
                      users_created_at = t\<rparr>
           in if i \<in> users_id ` set (users w) \<or> u' \<in> users_username ` set (users w)
              then (Inl (DbError ''23505''), w1)
              else (Inr row, w1\<lparr>users := users w @ [row]\<rparr>))
      | _ \<Rightarrow> (Inl (DbError ''22001''), w))"

text \<open>
  \<open>INSERT INTO device_registrations (device_id, user_id) VALUES ($1, $2)\<close>: the value is
  fitted to \<open>VARCHAR(255)\<close>; then the sequence advances and the primary key,
  \<open>UNIQUE (device_id)\<close> and the foreign key to \<open>users\<close> (SQLSTATE 23503) are checked.
\<close>

definition insert_device :: "nat \<Rightarrow> string \<Rightarrow> nat \<Rightarrow> database \<Rightarrow> (error + unit) \<times> database" where
  "insert_device t d uid w =
     (case varchar 255 d of
        Inl err \<Rightarrow> (Inl err, w)
      | Inr d' \<Rightarrow>
          (let i = device_registrations_id_seq w;
               w1 = w\<lparr>device_registrations_id_seq := Suc i\<rparr>;
               row = \<lparr>devreg_id = i, devreg_device_id = d', devreg_user_id = uid,
                      devreg_created_at = t\<rparr>
           in if i \<in> devreg_id ` set (device_registrations w)
                   \<or> d' \<in> devreg_device_id ` set (device_registrations w)
              then (Inl (DbError ''23505''), w1)
              else if uid \<notin> users_id ` set (users w) then (Inl (DbError ''23503''), w1)
              else (Inr (), w1\<lparr>device_registrations := device_registrations w @ [row]\<rparr>)))"

text \<open>
  \<open>INSERT INTO progress (user_id, data) VALUES ($1, $2)\<close>: primary key, then foreign key.
  \<open>d\<close> is the \<open>jsonb\<close> value that the server has read from the parameter; the handlers
  pass an object here, which the server reads as it is.
\<close>

definition insert_progress :: "nat \<Rightarrow> nat \<Rightarrow> json \<Rightarrow> database \<Rightarrow> (error + unit) \<times> database" where
  "insert_progress t uid d w =
     (if progress w uid \<noteq> None then (Inl (DbError ''23505''), w)
      else if uid \<notin> users_id ` set (users w) then (Inl (DbError ''23503''), w)
      else (Inr (), w\<lparr>progress := (progress w)(uid \<mapsto> \<lparr>progress_data = d, progress_updated_at = t\<rparr>)\<rparr>))"

text \<open>
  \<open>INSERT ... ON CONFLICT (user_id) DO UPDATE SET data = $2, updated_at = CURRENT_TIMESTAMP\<close>:
  an existing row is replaced; otherwise the row is inserted, which checks the foreign key.
  \<open>d\<close> is the \<open>jsonb\<close> value that the server has read from the parameter.
\<close>

definition upsert_progress :: "nat \<Rightarrow> nat \<Rightarrow> json \<Rightarrow> database \<Rightarrow> (error + unit) \<times> database" where
  "upsert_progress t uid d w =
     (if progress w uid = None \<and> uid \<notin> users_id ` set (users w) then (Inl (DbError ''23503''), w)
      else (Inr (), w\<lparr>progress := (progress w)(uid \<mapsto> \<lparr>progress_data = d, progress_updated_at = t\<rparr>)\<rparr>))"

text \<open>
  \<open>SELECT * FROM users WHERE username = $1\<close>. A parameter that is \<open>undefined\<close> is sent as
  \<open>NULL\<close>, and \<open>username = NULL\<close> holds for no row.
\<close>

definition select_user :: "string option \<Rightarrow> database \<Rightarrow> user_row list" where
  "select_user u w =
     (case u of None \<Rightarrow> [] | Some n \<Rightarrow> filter (\<lambda>r. users_username r = n) (users w))"

section \<open>Session guard (server.js, authenticateToken)\<close>

text \<open>JavaScript's \<open>s.split(c)\<close> for a one-character separator.\<close>

primrec js_split :: "char \<Rightarrow> string \<Rightarrow> string list" where
  "js_split c [] = [[]]"
| "js_split c (x # xs) =
     (if x = c then [] # js_split c xs
      else (case js_split c xs of [] \<Rightarrow> [[x]] | p # ps \<Rightarrow> (x # p) # ps))"

definition nth_opt :: "'a list \<Rightarrow> nat \<Rightarrow> 'a option" where
  "nth_opt xs i = (if i < length xs then Some (xs ! i) else None)"

text \<open>
  \<open>authHeader && authHeader.split(' ')[1]\<close>: \<open>undefined\<close> for a missing header, the empty
  string for an empty header (the empty string is falsy and is the value of \<open>&&\<close>), else the
  second piece, which is \<open>undefined\<close> when the header holds no space.
\<close>

definition extract_token :: "string option \<Rightarrow> string option" where
  "extract_token authHeader =
     (case authHeader of
        None \<Rightarrow> None
      | Some h \<Rightarrow> if h = [] then Some [] else nth_opt (js_split CHR '' '' h) 1)"

text \<open>
  The middleware, with the protected handler as the continuation \<open>next\<close>, which receives
  \<open>req.user\<close>.
\<close>

definition authenticateToken ::
  "env \<Rightarrow> string option \<Rightarrow> (identity \<Rightarrow> 's \<Rightarrow> response \<times> 's) \<Rightarrow> 's \<Rightarrow> response \<times> 's" where
  "authenticateToken e authHeader next s =
     (case extract_token authHeader of
        None \<Rightarrow> (sendStatus 401, s)
      | Some token \<Rightarrow>
          (case jwt_verify e token of
             None \<Rightarrow> (sendStatus 403, s)
           | Some user \<Rightarrow> next user s))"

section \<open>Registration (server.js lines 62-105, part_000 lines 70-102, part_001 lines 12-50)\<close>

text \<open>
  The body of a register or login request. A field is \<open>None\<close> when the request does not
  hold it and a string otherwise.
\<close>

record auth_body =
  username :: "string option"
  password :: "string option"
  deviceId :: "string option"

definition emptyProgress :: json where
  "emptyProgress = JObj [(''settings'', JObj [(''theme'', JStr ''light'')]), (''lectures'', JObj [])]"

text \<open>One awaited statement on the working state of the connection.\<close>

definition query ::
  "env \<Rightarrow> io \<Rightarrow> (database \<Rightarrow> (error + 'a) \<times> database) \<Rightarrow> database \<Rightarrow> (error + 'a) \<times> database" where
  "query e k stmt w = (case fault e k of Some err \<Rightarrow> (Inl err, w) | None \<Rightarrow> stmt w)"

text \<open>
  The inner \<open>try\<close> block from \<open>BEGIN\<close> to \<open>COMMIT\<close>. The statements work on the state \<open>w\<close> of
  the open transaction; the second component of the result is the committed state, which
  takes the rows of \<open>w\<close> only when \<open>COMMIT\<close> has succeeded.
\<close>

definition register_try ::
  "env \<Rightarrow> string \<Rightarrow> string \<Rightarrow> string \<Rightarrow> database \<Rightarrow> (error + response) \<times> database" where
  "register_try e u hashedPassword d db =
     (case fault e Begin of
        Some err \<Rightarrow> (Inl err, db)
      | None \<Rightarrow>
     (case query e SelectDevice (\<lambda>w. (Inr (select_device d w), w)) db of
        (Inl err, w) \<Rightarrow> (Inl err, rollback db w)
      | (Inr deviceCheck, w) \<Rightarrow>
          if 0 < length deviceCheck then
            (case fault e RollbackDevice of
               Some err \<Rightarrow> (Inl err, rollback db w)
             | None \<Rightarrow> (Inr (res_json 403 (error_json MsgDeviceAlreadyRegistered)), rollback db w))
          else
     (case query e InsertUser (insert_user (now e) u hashedPassword) w of
        (Inl err, w1) \<Rightarrow> (Inl err, rollback db w1)
      | (Inr newUser, w1) \<Rightarrow>
     (case query e InsertDevice (insert_device (now e) d (users_id newUser)) w1 of
        (Inl err, w2) \<Rightarrow> (Inl err, rollback db w2)
      | (Inr _, w2) \<Rightarrow>
     (case query e InsertProgress (insert_progress (now e) (users_id newUser) emptyProgress) w2 of
        (Inl err, w3) \<Rightarrow> (Inl err, rollback db w3)
      | (Inr _, w3) \<Rightarrow>
     (case fault e Commit of
        Some err \<Rightarrow> (Inl err, rollback db w3)
      | None \<Rightarrow>
          (Inr (res_json 201 (JObj [(''id'', JNum (int (users_id newUser))),
                                    (''username'', JStr (users_username newUser))])), w3)))))))"

text \<open>\<open>catch (e) { await client.query('ROLLBACK'); throw e; }\<close>\<close>

definition register_transaction ::
  "env \<Rightarrow> string \<Rightarrow> string \<Rightarrow> string \<Rightarrow> database \<Rightarrow> (error + response) \<times> database" where
  "register_transaction e u hashedPassword d db =
     (case register_try e u hashedPassword d db of
        (Inl err, db') \<Rightarrow>
          (case fault e RollbackCatch of
             Some err' \<Rightarrow> (Inl err', db')
           | None \<Rightarrow> (Inl err, db'))
      | (Inr r, db') \<Rightarrow> (Inr r, db'))"

text \<open>The outer \<open>catch (error)\<close>.\<close>

definition register_catch :: "error \<Rightarrow> response" where
  "register_catch err =
     (if err = DbError ''23505'' then res_json 409 (error_json MsgUsernameExists)
      else res_json 500 (error_json MsgServerError))"

definition register :: "env \<Rightarrow> auth_body \<Rightarrow> database \<Rightarrow> response \<times> database" where
  "register e b db =
     (case (username b, password b, deviceId b) of
        (Some u, Some p, Some d) \<Rightarrow>
          if u = [] \<or> p = [] \<or> d = [] then (res_json 400 (error_json MsgFieldsRequired), db)
          else
            (case fault e BcryptHash of
               Some err \<Rightarrow> (register_catch err, db)
             | None \<Rightarrow>
            (case fault e PoolConnect of
               Some err \<Rightarrow> (register_catch err, db)
             | None \<Rightarrow>
            (case register_transaction e u (bcrypt_hash e p) d db of
               (Inl err, db') \<Rightarrow> (register_catch err, db')
             | (Inr r, db') \<Rightarrow> (r, db'))))
      | _ \<Rightarrow> (res_json 400 (error_json MsgFieldsRequired), db))"

text \<open>The device check of the handler: \<open>deviceCheck.rowCount > 0\<close>.\<close>

definition isRegistered :: "string \<Rightarrow> database \<Rightarrow> bool" where
  "isRegistered d db = (0 < length (select_device d db))"

text \<open>
  The device id \<open>d\<close>, as the column stores it, is the \<open>device_id\<close> of a row: the case in
  which \<open>UNIQUE (device_id)\<close> refuses an insert of \<open>d\<close>.
\<close>

definition device_taken :: "string \<Rightarrow> database \<Rightarrow> bool" where
  "device_taken d db =
     (case varchar 255 d of
        Inl err \<Rightarrow> False
      | Inr d' \<Rightarrow> d' \<in> devreg_device_id ` set (device_registrations db))"

section \<open>Login\<close>

text \<open>server.js lines 107-124 and part_001 lines 53-73.\<close>

definition login_legacy :: "env \<Rightarrow> auth_body \<Rightarrow> database \<Rightarrow> response" where
  "login_legacy e b db =
     (case fault e SelectUser of
        Some err \<Rightarrow> res_json 500 (error_json MsgServerError)
      | None \<Rightarrow>
          (case select_user (username b) db of
             [] \<Rightarrow> res_json 400 (error_json MsgUserNotFound)
           | user # _ \<Rightarrow>
               (case bcrypt_compare e (password b) (users_password user) of
                  Inl err \<Rightarrow> res_json 500 (error_json MsgServerError)
                | Inr True \<Rightarrow>
                    res_json 200 (JObj [(''accessToken'',
                      JStr (jwt_sign e \<lparr>ident_id = users_id user,
                                        ident_username = users_username user\<rparr>))])
                | Inr False \<Rightarrow> res_json 401 (error_json MsgWrongPassword))))"

text \<open>
  part_000 lines 104-127: the token goes into the cookie \<open>accessToken\<close> and the answer is a
  redirect to \<open>/app\<close>.
\<close>

definition login_api :: "env \<Rightarrow> auth_body \<Rightarrow> database \<Rightarrow> response" where
  "login_api e b db =
     (case fault e SelectUser of
        Some err \<Rightarrow> res_send 500 MsgServerError
      | None \<Rightarrow>
          (case select_user (username b) db of
             [] \<Rightarrow> res_send 401 MsgBadCredentials
           | user # _ \<Rightarrow>
               (case bcrypt_compare e (password b) (users_password user) of
                  Inl err \<Rightarrow> res_send 500 MsgServerError
                | Inr True \<Rightarrow>
                    \<lparr>status = 302, headers = [(''Location'', ''/app'')],
                     cookies = [(''accessToken'',
                       jwt_sign e \<lparr>ident_id = users_id user,
                                   ident_username = users_username user\<rparr>)],
                     body = RedirectBody\<rparr>
                | Inr False \<Rightarrow> res_send 401 MsgBadCredentials)))"

section \<open>Progress\<close>

text \<open>
  JavaScript's \<open>!v\<close> on the parsed request body: true for \<open>undefined\<close>, \<open>null\<close>, \<open>false\<close>,
  \<open>0\<close> and the empty string; objects and arrays, also empty ones, are truthy.
\<close>

fun js_not :: "json option \<Rightarrow> bool" where
  "js_not None = True"
| "js_not (Some JNull) = True"
| "js_not (Some (JBool v)) = (\<not> v)"
| "js_not (Some (JNum n)) = (n = 0)"
| "js_not (Some (JStr s)) = (s = [])"
| "js_not (Some (JMsg m)) = False"
| "js_not (Some (JArr xs)) = False"
| "js_not (Some (JObj kvs)) = False"

text \<open>server.js lines 126-140 and part_001 lines 76-89: \<open>req.user.id\<close> is \<open>uid\<close>.\<close>

definition get_progress_legacy :: "env \<Rightarrow> nat \<Rightarrow> database \<Rightarrow> response \<times> database" where
  "get_progress_legacy e uid db =
     (case fault e SelectProgress of
        Some err \<Rightarrow> (res_json 500 (error_json MsgServerError), db)
      | None \<Rightarrow>
          (case progress db uid of
             Some row \<Rightarrow> (res_json 200 (progress_data row), db)
           | None \<Rightarrow> (res_json 200 emptyProgress, db)))"

text \<open>part_000 lines 138-154.\<close>

definition empty :: json where
  "empty = JObj [(''settings'', JObj [(''theme'', JStr ''light''), (''currentWeekIndex'', JNum 0)]),
                 (''lectures'', JObj [])]"

definition get_progress_api :: "env \<Rightarrow> nat \<Rightarrow> database \<Rightarrow> response \<times> database" where
  "get_progress_api e uid db =
     (case fault e SelectProgress of
        Some err \<Rightarrow>
          (res_json 500 (JObj [(''error'', JMsg MsgProgressLoadFailed),
                               (''code'', JStr ''PROGRESS_LOAD_FAILED'')]), db)
      | None \<Rightarrow>
          (case progress db uid of
             Some row \<Rightarrow> (res_json 200 (progress_data row), db)
           | None \<Rightarrow>
               (case query e InsertProgress (insert_progress (now e) uid empty) db of
                  (Inl err, db') \<Rightarrow>
                    (res_json 500 (JObj [(''error'', JMsg MsgProgressLoadFailed),
                                         (''code'', JStr ''PROGRESS_LOAD_FAILED'')]), db')
                | (Inr _, db') \<Rightarrow>
                    (\<lparr>status = 200, headers = [(''X-Notice'', ''DATA_INITIALIZED'')],
                      cookies = [], body = Json empty\<rparr>, db'))))"

text \<open>
  server.js lines 142-160. The parameter of the statement is the text
  \<open>JSON.stringify(progressData)\<close>, which the server reads as the value \<open>progressData\<close>. The
  handlers of part_000 (lines 156-171) and part_001 have the same guard and the same
  answers and hand \<open>progressData\<close> itself to the driver: \<open>post_progress_api\<close> below.
\<close>

definition post_progress :: "env \<Rightarrow> nat \<Rightarrow> json option \<Rightarrow> database \<Rightarrow> response \<times> database" where
  "post_progress e uid progressData db =
     (if js_not progressData then (res_json 400 (error_json MsgNoDataToSave), db)
      else
        (case progressData of
           None \<Rightarrow> (res_json 400 (error_json MsgNoDataToSave), db)
         | Some d \<Rightarrow>
             (case query e UpsertProgress (upsert_progress (now e) uid d) db of
                (Inl err, db') \<Rightarrow> (res_json 500 (error_json MsgServerError), db')
              | (Inr _, db') \<Rightarrow>
                  (res_json 200 (JObj [(''success'', JBool True),
                                       (''message'', JMsg MsgProgressSaved)]), db'))))"

text \<open>
  What the column \<open>data\<close> holds when the driver is handed the JavaScript value itself: an
  object is sent as its JSON text; an array is sent as a PostgreSQL array literal, which
  is \<open>{}\<close> for the empty array, the JSON text of the empty object, and is no JSON text for
  any other array (SQLSTATE 22P02).
\<close>

fun pg_jsonb :: "env \<Rightarrow> json \<Rightarrow> error + json" where
  "pg_jsonb e (JObj kvs) = Inr (JObj kvs)"
| "pg_jsonb e (JArr []) = Inr (JObj [])"
| "pg_jsonb e (JArr (x # xs)) = Inl (DbError ''22P02'')"
| "pg_jsonb e v = jsonb_of_param e v"

text \<open>part_000 lines 156-171 (part_001 lines 92-108 with another text of the 400 answer).\<close>

definition post_progress_api ::
  "env \<Rightarrow> nat \<Rightarrow> json option \<Rightarrow> database \<Rightarrow> response \<times> database" where
  "post_progress_api e uid progressData db =
     (if js_not progressData then (res_json 400 (error_json MsgNoDataToSave), db)
      else
        (case progressData of
           None \<Rightarrow> (res_json 400 (error_json MsgNoDataToSave), db)
         | Some d \<Rightarrow>
             (case query e UpsertProgress
                     (\<lambda>w. case pg_jsonb e d of
                            Inl err \<Rightarrow> (Inl err, w)
                          | Inr v \<Rightarrow> upsert_progress (now e) uid v w) db of
                (Inl err, db') \<Rightarrow> (res_json 500 (error_json MsgServerError), db')
              | (Inr _, db') \<Rightarrow>
                  (res_json 200 (JObj [(''success'', JBool True),
                                       (''message'', JMsg MsgProgressSaved)]), db'))))"

section \<open>The body parser (server.js line 38, part_002 line 35)\<close>

text \<open>
  \<open>express.json({limit: '2mb'})\<close> runs in front of every route. The body of a request is
  either nothing that the parser reads (\<open>NoBody\<close>) or a JSON document sent as
  \<open>application/json\<close>, with its length in bytes.
\<close>

datatype http_body = NoBody | JsonBody nat json

text \<open>The number of bits of a positive integer.\<close>

function bitlen :: "int \<Rightarrow> nat" where
  "bitlen m = (if m \<le> 0 then 0 else Suc (bitlen (m div 2)))"
  by pat_completeness auto
termination
  by (relation "measure nat") auto

declare bitlen.simps [simp del]

text \<open>
  A JavaScript number is a double. A non-negative integer below \<open>2 ^ 53\<close> is a double; a
  larger one is read as the nearest double, which is a multiple of the unit \<open>u\<close> of its
  magnitude, the even multiple on a tie.
\<close>

definition round_int :: "int \<Rightarrow> int" where
  "round_int m =
     (if m < 2 ^ 53 then m
      else (let u = 2 ^ (bitlen m - 53); q = m div u; r = m mod u
            in (if 2 * r < u \<or> (2 * r = u \<and> even q) then q else q + 1) * u))"

text \<open>\<open>None\<close> is \<open>Infinity\<close> or \<open>-Infinity\<close>.\<close>

definition to_double :: "int \<Rightarrow> int option" where
  "to_double n =
     (let m = round_int \<bar>n\<bar>
      in if 2 ^ 1024 \<le> m then None else Some (if n < 0 then - m else m))"

text \<open>
  The members of a parsed object: a name that is written several times keeps its first
  place and its last value.
\<close>

function last_wins :: "(string \<times> 'a) list \<Rightarrow> (string \<times> 'a) list" where
  "last_wins [] = []"
| "last_wins ((k, v) # kvs) =
     (k, case map_of (rev kvs) k of None \<Rightarrow> v | Some v' \<Rightarrow> v') #
     last_wins (filter (\<lambda>kv. fst kv \<noteq> k) kvs)"
  by pat_completeness auto
termination
  by (relation "measure length") (auto simp: less_Suc_eq_le)

text \<open>
  \<open>JSON.parse\<close>, from the document to the value that the handlers see. A number beyond the
  doubles is read as \<open>Infinity\<close>, which \<open>JSON.stringify\<close> writes as \<open>null\<close> wherever the
  value goes afterwards.
\<close>

primrec JSON_parse :: "json \<Rightarrow> json" where
  "JSON_parse JNull = JNull"
| "JSON_parse (JBool b) = JBool b"
| "JSON_parse (JNum n) = (case to_double n of None \<Rightarrow> JNull | Some m \<Rightarrow> JNum m)"
| "JSON_parse (JStr s) = JStr s"
| "JSON_parse (JMsg m) = JMsg m"
| "JSON_parse (JArr xs) = JArr (map JSON_parse xs)"
| "JSON_parse (JObj kvs) = JObj (last_wins (map (map_prod id JSON_parse) kvs))"

text \<open>
  The parser: a body above the limit is answered 413; in strict mode, the default, a
  document that is neither an object nor an array is answered 400; both before any route
  runs. \<open>Inr\<close> is \<open>req.body\<close>.
\<close>

definition express_json :: "env \<Rightarrow> http_body \<Rightarrow> response + json option" where
  "express_json e b =
     (case b of
        NoBody \<Rightarrow> Inr (body_less e)
      | JsonBody n doc \<Rightarrow>
          if 2 * 1024 * 1024 < n then Inl (error_page 413)
          else
            (case doc of
               JObj kvs \<Rightarrow> Inr (Some (JSON_parse doc))
             | JArr xs \<Rightarrow> Inr (Some (JSON_parse doc))
             | _ \<Rightarrow> Inl (error_page 400)))"

section \<open>The application of server.js\<close>

datatype request =
    PostRegister auth_body
  | PostLogin auth_body
  | GetProgress "string option"
  | PostProgress "string option" http_body

text \<open>
  The four routes. \<open>GetProgress\<close> and \<open>PostProgress\<close> carry the \<open>authorization\<close> header.
  The rate limiter of a route answers 429 with its message before the handler runs; the
  body parser runs before the guard of the route.
\<close>

fun server :: "env \<Rightarrow> request \<Rightarrow> database \<Rightarrow> response \<times> database" where
  "server e (PostRegister b) db =
     (if limited e then (res_json 429 (error_json MsgTooManyAccounts), db)
      else register e b db)"
| "server e (PostLogin b) db =
     (if limited e then (res_json 429 (error_json MsgTooManyLogins), db)
      else (login_legacy e b db, db))"
| "server e (GetProgress auth) db =
     authenticateToken e auth (\<lambda>user. get_progress_legacy e (ident_id user)) db"
| "server e (PostProgress auth b) db =
     (case express_json e b of
        Inl r \<Rightarrow> (r, db)
      | Inr progressData \<Rightarrow>
          authenticateToken e auth (\<lambda>user. post_progress e (ident_id user) progressData) db)"


section \<open>The route POST /progress of the router (part_000, mounted by part_002)\<close>

text \<open>
  The body parser of part_002 and the handler of part_000, for a request that the guard of
  the route, which is not in the source, has passed with \<open>req.user.id = uid\<close>.
\<close>

definition api_post_progress ::
  "env \<Rightarrow> nat \<Rightarrow> http_body \<Rightarrow> database \<Rightarrow> response \<times> database" where
  "api_post_progress e uid b db =
     (case express_json e b of
        Inl r \<Rightarrow> (r, db)
      | Inr progressData \<Rightarrow> post_progress_api e uid progressData db)"

section \<open>Documents and requests of the round trip\<close>

text \<open>The guard of server.js passes the request as user \<open>uid\<close>.\<close>

definition authenticated :: "env \<Rightarrow> string option \<Rightarrow> nat \<Rightarrow> bool" where
  "authenticated e auth uid =
     (case extract_token auth of
        None \<Rightarrow> False
      | Some token \<Rightarrow>
          (case jwt_verify e token of None \<Rightarrow> False | Some user \<Rightarrow> ident_id user = uid))"

fun is_object :: "json \<Rightarrow> bool" where
  "is_object (JObj kvs) = True"
| "is_object v = False"

fun is_array :: "json \<Rightarrow> bool" where
  "is_array (JArr xs) = True"
| "is_array v = False"

text \<open>The depth to which arrays and objects are nested in a value.\<close>

primrec depth :: "json \<Rightarrow> nat" where
  "depth JNull = 0"
| "depth (JBool b) = 0"
| "depth (JNum n) = 0"
| "depth (JStr s) = 0"
| "depth (JMsg m) = 0"
| "depth (JArr xs) = Suc (fold max (map depth xs) 0)"
| "depth (JObj kvs) = Suc (fold max (map snd (map (map_prod id depth) kvs)) 0)"

text \<open>A string or a member name of the value holds the character U+0000.\<close>

primrec has_nul :: "json \<Rightarrow> bool" where
  "has_nul JNull = False"
| "has_nul (JBool b) = False"
| "has_nul (JNum n) = False"
| "has_nul (JStr s) = (CHR 0x00 \<in> set s)"
| "has_nul (JMsg m) = False"
| "has_nul (JArr xs) = list_ex id (map has_nul xs)"
| "has_nul (JObj kvs) =
     list_ex (\<lambda>kv. CHR 0x00 \<in> set (fst kv) \<or> snd kv) (map (map_prod id has_nul) kvs)"

text \<open>
  A value that \<open>JSON.stringify\<close> writes and the type \<open>jsonb\<close> takes, whatever the stack of
  the process and of the server: \<open>jsonb\<close> refuses the character U+0000, and a value nested
  some thousand levels deep exhausts the stack of one or the other. The bound 100 is on
  the safe side.
\<close>

definition jsonb_takes :: "json \<Rightarrow> bool" where
  "jsonb_takes v = (if has_nul v then False else depth v \<le> 100)"

text \<open>
  Every number of the value is an integer of magnitude at most \<open>2 ^ 53 - 1\<close>, which is
  \<open>Number.MAX_SAFE_INTEGER\<close>: \<open>JSON.stringify\<close> writes all the digits of such a number, and
  only the shortest digits that give back the same double of a larger one.
\<close>

primrec safe_integers :: "json \<Rightarrow> bool" where
  "safe_integers JNull = True"
| "safe_integers (JBool b) = True"
| "safe_integers (JNum n) = (\<bar>n\<bar> \<le> 2 ^ 53 - 1)"
| "safe_integers (JStr s) = True"
| "safe_integers (JMsg m) = True"
| "safe_integers (JArr xs) = list_all id (map safe_integers xs)"
| "safe_integers (JObj kvs) = list_all snd (map (map_prod id safe_integers) kvs)"

text \<open>The database in which the progress row of \<open>uid\<close> holds \<open>d\<close>, written at time \<open>t\<close>.\<close>

definition with_progress :: "database \<Rightarrow> nat \<Rightarrow> json \<Rightarrow> nat \<Rightarrow> database" where
  "with_progress db uid d t =
     db\<lparr>progress := (progress db)(uid \<mapsto> \<lparr>progress_data = d, progress_updated_at = t\<rparr>)\<rparr>"

section \<open>Image proxy (part_000 lines 217-321)\<close>

text \<open>What \<open>new URL(raw)\<close> yields: the four properties the handler reads.\<close>

record url =
  protocol :: string
  hostname :: string
  origin :: string
  href :: string

text \<open>
  The three header sets of \<open>trials\<close>: with the Google Sites referer, with the common
  headers only, and with the image's own origin as referer.
\<close>

datatype trial = SitesReferer | CommonOnly | OriginReferer

text \<open>
  The upstream response: \<open>arrayBuffer\<close> is \<open>Inl\<close> the message of the error when reading
  the body throws; \<open>body_text\<close> is \<open>None\<close> when \<open>text()\<close> rejects.
\<close>

record upstream =
  upstream_status :: nat
  content_type :: "string option"
  arrayBuffer :: "string option + nat list"
  body_text :: "string option"

text \<open>\<open>fetch\<close> either rejects, with an error that may have a message, or resolves.\<close>

datatype fetched = Rejected "string option" | Resolved upstream

definition ok :: "upstream \<Rightarrow> bool" where
  "ok up = (200 \<le> upstream_status up \<and> upstream_status up \<le> 299)"

text \<open>\<open>String(e && e.message || 'fetch error')\<close>\<close>

definition error_message :: "string option \<Rightarrow> string" where
  "error_message m =
     (case m of None \<Rightarrow> ''fetch error'' | Some s \<Rightarrow> if s = [] then ''fetch error'' else s)"

definition ALLOWED_IMAGE_HOSTS :: "string list" where
  "ALLOWED_IMAGE_HOSTS =
     [''pub-8e1f6da67eed4033b14228e6b9e1393c.r2.dev'', ''googleusercontent.com'']"

definition endsWith :: "string \<Rightarrow> string \<Rightarrow> bool" where
  "endsWith s suf = (length suf \<le> length s \<and> drop (length s - length suf) s = suf)"

definition isAllowedHost :: "string \<Rightarrow> bool" where
  "isAllowedHost h =
     list_ex (\<lambda>allowedHost. h = allowedHost \<or> endsWith h (''.'' @ allowedHost))
       ALLOWED_IMAGE_HOSTS"

text \<open>\<open>res.setHeader\<close> replaces the value of a header that is already set.\<close>

definition setHeader ::
  "string \<Rightarrow> string \<Rightarrow> (string \<times> string) list \<Rightarrow> (string \<times> string) list" where
  "setHeader k v hs = (k, v) # filter (\<lambda>kv. fst kv \<noteq> k) hs"

text \<open>\<open>String(n)\<close> for a natural number.\<close>

fun string_of_nat :: "nat \<Rightarrow> string" where
  "string_of_nat n =
     (if n < 10 then [char_of (48 + n)]
      else string_of_nat (n div 10) @ [char_of (48 + n mod 10)])"

declare string_of_nat.simps [simp del]

definition trials :: "trial list" where
  "trials = [SitesReferer, CommonOnly, OriginReferer]"

text \<open>
  The loop \<open>for (const t of trials)\<close>, with the headers set on \<open>res\<close> so far, \<open>lastStatus\<close>
  and \<open>lastBody\<close>. \<open>Inl\<close> is the answer sent from inside the loop.
\<close>

fun image_trials ::
  "(trial \<Rightarrow> fetched) \<Rightarrow> trial list \<Rightarrow> (string \<times> string) list \<Rightarrow> nat \<Rightarrow> string \<Rightarrow>
     response + (string \<times> string) list \<times> nat \<times> string" where
  "image_trials f [] hs lastStatus lastBody = Inr (hs, lastStatus, lastBody)"
| "image_trials f (t # ts) hs lastStatus lastBody =
     (case f t of
        Rejected m \<Rightarrow> image_trials f ts hs 0 (error_message m)
      | Resolved up \<Rightarrow>
          if ok up then
            (let contentType = (case content_type up of
                                  None \<Rightarrow> ''application/octet-stream''
                                | Some c \<Rightarrow> if c = [] then ''application/octet-stream'' else c);
                 hs1 = setHeader ''Cache-Control'' ''public, max-age=86400''
                         (setHeader ''Content-Type'' contentType hs)
             in case arrayBuffer up of
                  Inl m \<Rightarrow> image_trials f ts hs1 0 (error_message m)
                | Inr ab \<Rightarrow> Inl \<lparr>status = 200, headers = hs1, cookies = [], body = Binary ab\<rparr>)
          else image_trials f ts hs (upstream_status up)
                 (case body_text up of None \<Rightarrow> [] | Some s \<Rightarrow> s))"

text \<open>
  The handler, for the query parameter \<open>url\<close>. \<open>new URL\<close> and \<open>fetch\<close> are parameters;
  \<open>fetch\<close> is given the address and the header set of the trial.
\<close>

definition image_proxy ::
  "(string \<Rightarrow> url option) \<Rightarrow> (string \<Rightarrow> trial \<Rightarrow> fetched) \<Rightarrow> string option \<Rightarrow> response" where
  "image_proxy parse_url fetch q =
     (let raw = (case q of None \<Rightarrow> [] | Some s \<Rightarrow> s)
      in if raw = [] then res_send 400 MsgUrlRequired
         else
           (case parse_url raw of
              None \<Rightarrow> res_send 400 MsgInvalidUrl
            | Some urlObj \<Rightarrow>
                if protocol urlObj \<noteq> ''https:'' \<or> \<not> isAllowedHost (hostname urlObj)
                then \<lparr>status = 400, headers = [], cookies = [],
                      body = TextWith MsgHostNotAllowed (hostname urlObj)\<rparr>
                else
                  (case image_trials (fetch (href urlObj)) trials [] 0 [] of
                     Inl r \<Rightarrow> r
                   | Inr (hs, lastStatus, lastBody) \<Rightarrow>
                       \<lparr>status = 200,
                        headers =
                          setHeader ''Cache-Control'' ''public, max-age=600''
                            (setHeader ''Content-Type'' ''image/svg+xml; charset=utf-8''
                               (setHeader ''X-Upstream-Status'' (string_of_nat lastStatus) hs)),
                        cookies = [], body = PlaceholderSvg lastStatus\<rparr>)))"

text \<open>
  An attempt fails when \<open>fetch\<close> rejects, when the upstream status is not 2xx, or when
  reading the body of a 2xx response throws.
\<close>

fun attempt_fails :: "fetched \<Rightarrow> bool" where
  "attempt_fails (Rejected m) = True"
| "attempt_fails (Resolved up) = (if ok up then isl (arrayBuffer up) else True)"

section \<open>A concrete environment and concrete databases for the examples\<close>

text \<open>
  No awaited call fails; the hash of \<open>p\<close> is \<open>p\<close> behind a fixed prefix; \<open>bcrypt.compare\<close>
  rejects when the password is \<open>undefined\<close>, as the library does for a \<open>null\<close> or
  \<open>undefined\<close> argument, and the only token that verifies is the one signed for \<open>alice\<close>.
  The rate limiter lets the request pass, a request without a document has no \<open>req.body\<close>
  (Express 5), and the column \<open>data\<close> reads the text of a boolean or a number as that value
  and refuses the text of a string (no example sends a string whose text is a JSON text).
\<close>

definition test_env :: env where
  "test_env =
     \<lparr>now = 7,
      fault = (\<lambda>k. None),
      bcrypt_hash = (\<lambda>p. ''$2b$10$'' @ p),
      bcrypt_compare =
        (\<lambda>data h. case data of None \<Rightarrow> Inl JsError | Some p \<Rightarrow> Inr (h = ''$2b$10$'' @ p)),
      jwt_sign = (\<lambda>i. ''jwt-'' @ ident_username i),
      jwt_verify =
        (\<lambda>t. if t = ''jwt-alice'' then Some \<lparr>ident_id = 1, ident_username = ''alice''\<rparr>
             else None),
      limited = False,
      body_less = None,
      jsonb_of_param =
        (\<lambda>v. case v of JBool b \<Rightarrow> Inr v | JNum n \<Rightarrow> Inr v | _ \<Rightarrow> Inl (DbError ''22P02''))\<rparr>"

text \<open>The same environment, in which the awaited call \<open>k\<close> rejects with \<open>err\<close>.\<close>

definition failing :: "io \<Rightarrow> error \<Rightarrow> env" where
  "failing k err = test_env\<lparr>fault := (\<lambda>k'. if k' = k then Some err else None)\<rparr>"

text \<open>The database right after \<open>initializeDatabase\<close>: three empty tables.\<close>

definition db0 :: database where
  "db0 = \<lparr>users = [], users_id_seq = 1, device_registrations = [],
          device_registrations_id_seq = 1, progress = (\<lambda>k. None)\<rparr>"

definition alice :: auth_body where
  "alice = \<lparr>username = Some ''alice'', password = Some ''secret'',
            deviceId = Some ''device-1''\<rparr>"

text \<open>A device id of 256 characters, the last of which is a space.\<close>

definition long_device :: string where
  "long_device = replicate 255 CHR ''d'' @ '' ''"

text \<open>The database after \<open>alice\<close> has registered (lemma \<open>register_alice\<close> below).\<close>

definition db_alice :: database where
  "db_alice =
     \<lparr>users = [\<lparr>users_id = 1, users_username = ''alice'', users_password = ''$2b$10$secret'',
                 users_created_at = 7\<rparr>],
      users_id_seq = 2,
      device_registrations = [\<lparr>devreg_id = 1, devreg_device_id = ''device-1'',
                                devreg_user_id = 1, devreg_created_at = 7\<rparr>],
      device_registrations_id_seq = 2,
      progress = (\<lambda>k. None)(1 \<mapsto> \<lparr>progress_data = emptyProgress, progress_updated_at = 7\<rparr>)\<rparr>"

text \<open>A database with a user row and no progress row for it.\<close>

definition db_legacy :: database where
  "db_legacy =
     \<lparr>users = [\<lparr>users_id = 1, users_username = ''alice'', users_password = ''$2b$10$secret'',
                 users_created_at = 7\<rparr>],
      users_id_seq = 2, device_registrations = [], device_registrations_id_seq = 1,
      progress = (\<lambda>k. None)\<rparr>"

definition test_parse_url :: "string \<Rightarrow> url option" where
  "test_parse_url raw =
     (if raw = ''https://lh3.googleusercontent.com/a.png''
      then Some \<lparr>protocol = ''https:'', hostname = ''lh3.googleusercontent.com'',
                 origin = ''https://lh3.googleusercontent.com'', href = raw\<rparr>
      else None)"

text \<open>
  An upstream that answers 403 to the first trial, 200 with a body that cannot be read to
  the second, and 404 to the third.
\<close>

definition test_fetch :: "string \<Rightarrow> trial \<Rightarrow> fetched" where
  "test_fetch u t =
     (case t of
        SitesReferer \<Rightarrow> Resolved \<lparr>upstream_status = 403, content_type = None,
                                  arrayBuffer = Inr [], body_text = Some ''Forbidden''\<rparr>
      | CommonOnly \<Rightarrow> Resolved \<lparr>upstream_status = 200, content_type = Some ''image/png'',
                                arrayBuffer = Inl (Some ''terminated''), body_text = None\<rparr>
      | OriginReferer \<Rightarrow> Resolved \<lparr>upstream_status = 404, content_type = None,
                                   arrayBuffer = Inr [], body_text = None\<rparr>)"

section \<open>Evaluation of the examples\<close>

lemma test_env_simps [simp]:
  "now test_env = 7" "fault test_env k = None" "bcrypt_hash test_env p = ''$2b$10$'' @ p"
  "bcrypt_compare test_env None h = Inl JsError"
  "bcrypt_compare test_env (Some p) h = Inr (h = ''$2b$10$'' @ p)"
  "jwt_sign test_env i = ''jwt-'' @ ident_username i"
  "jwt_verify test_env t =
     (if t = ''jwt-alice'' then Some \<lparr>ident_id = 1, ident_username = ''alice''\<rparr> else None)"
  "limited test_env = False" "body_less test_env = None"
  by (simp_all add: test_env_def)

lemma failing_simps [simp]:
  "now (failing k err) = 7" "fault (failing k err) k' = (if k' = k then Some err else None)"
  "bcrypt_hash (failing k err) p = ''$2b$10$'' @ p"
  "limited (failing k err) = False"
  "jwt_verify (failing k err) t = jwt_verify test_env t"
  by (simp_all add: failing_def test_env_def)

lemma varchar_fits [simp]: "length s \<le> n \<Longrightarrow> varchar n s = Inr s"
  by (simp add: varchar_def)

lemma long_device_simps [simp]:
  "long_device \<noteq> []" "varchar 255 long_device = Inr (replicate 255 CHR ''d'')"
  "replicate 255 CHR ''d'' \<noteq> long_device"
  by (simp_all add: long_device_def varchar_def)

lemma db0_simps [simp]:
  "users db0 = []" "users_id_seq db0 = 1" "device_registrations db0 = []"
  "device_registrations_id_seq db0 = 1" "progress db0 = (\<lambda>k. None)"
  by (simp_all add: db0_def)

lemma db_alice_simps [simp]:
  "users db_alice = [\<lparr>users_id = 1, users_username = ''alice'',
                       users_password = ''$2b$10$secret'', users_created_at = 7\<rparr>]"
  "users_id_seq db_alice = 2"
  "device_registrations db_alice = [\<lparr>devreg_id = 1, devreg_device_id = ''device-1'',
                                      devreg_user_id = 1, devreg_created_at = 7\<rparr>]"
  "device_registrations_id_seq db_alice = 2"
  "progress db_alice =
     (\<lambda>k. None)(1 \<mapsto> \<lparr>progress_data = emptyProgress, progress_updated_at = 7\<rparr>)"
  by (simp_all add: db_alice_def)

lemma db_legacy_simps [simp]:
  "users db_legacy = [\<lparr>users_id = 1, users_username = ''alice'',
                        users_password = ''$2b$10$secret'', users_created_at = 7\<rparr>]"
  "progress db_legacy = (\<lambda>k. None)"
  by (simp_all add: db_legacy_def)



lemma register_alice_progress_fails:
  "register (failing InsertProgress JsError) alice db0 =
     (res_json 500 (error_json MsgServerError),
      db0\<lparr>users_id_seq := 2, device_registrations_id_seq := 2\<rparr>)"
  by (simp add: register_def register_transaction_def register_try_def register_catch_def
        query_def select_device_def insert_user_def insert_device_def rollback_def
        Let_def alice_def)

lemma select_user_None [simp]: "select_user None db = []"
  by (simp add: select_user_def)

lemma select_user_alice:
  "select_user (Some ''alice'') db_alice =
     [\<lparr>users_id = 1, users_username = ''alice'', users_password = ''$2b$10$secret'',
       users_created_at = 7\<rparr>]"
  "select_user (Some ''mallory'') db_alice = []"
  by (simp_all add: select_user_def)

section \<open>Session guard\<close>

lemma length_js_split: "length (js_split c s) = Suc (length (filter (\<lambda>x. x = c) s))"
  by (induction s) (auto split: list.splits)

text \<open>
  No token is extracted exactly when the header is missing, or is not empty and holds no
  space.
\<close>

lemma extract_token_None_iff:
  "extract_token a = None \<longleftrightarrow>
     (a = None \<or> (\<exists>h. a = Some h \<and> h \<noteq> [] \<and> CHR '' '' \<notin> set h))"
  by (cases a)
     (auto simp: extract_token_def nth_opt_def length_js_split filter_empty_conv Suc_lessI)

lemma js_split_no_sep: "c \<notin> set s \<Longrightarrow> js_split c s = [s]"
  by (induction s) auto

lemma js_split_append: "c \<notin> set a \<Longrightarrow> js_split c (a @ c # t) = a # js_split c t"
  by (induction a) auto

text \<open>From \<open>Bearer t\<close> the token \<open>t\<close> is extracted.\<close>

lemma extract_token_bearer:
  "a \<noteq> [] \<Longrightarrow> CHR '' '' \<notin> set a \<Longrightarrow> CHR '' '' \<notin> set t \<Longrightarrow>
     extract_token (Some (a @ '' '' @ t)) = Some t"
  by (simp add: extract_token_def nth_opt_def js_split_append js_split_no_sep)

text \<open>
  C7. On a protected route of server.js: when no token is extracted from the request the
  guard answers 401; when a token is extracted and \<open>jwt.verify\<close> reports an error (bad
  signature, expired) it answers 403. In both cases the answer and the state are the same
  for every protected handler \<open>next\<close>: the handler is not run.
\<close>

theorem session_guard_rejects:
  "(extract_token authHeader = None \<longrightarrow>
      authenticateToken e authHeader next s = (sendStatus 401, s)) \<and>
   (\<forall>token. extract_token authHeader = Some token \<and> jwt_verify e token = None \<longrightarrow>
      authenticateToken e authHeader next s = (sendStatus 403, s)) \<and>
   status (sendStatus 401) = 401 \<and> status (sendStatus 403) = 403"
  by (simp add: authenticateToken_def sendStatus_def)

text \<open>A request without the header, and one with a token that does not verify.\<close>

theorem session_guard_rejects_witness:
  "extract_token None = None \<and>
   authenticateToken test_env None
     (\<lambda>user. get_progress_legacy test_env (ident_id user)) db0 = (sendStatus 401, db0) \<and>
   extract_token (Some ''Bearer forged'') = Some ''forged'' \<and>
   jwt_verify test_env ''forged'' = None \<and>
   authenticateToken test_env (Some ''Bearer forged'')
     (\<lambda>user. get_progress_legacy test_env (ident_id user)) db0 = (sendStatus 403, db0)"
  using session_guard_rejects
          [of None test_env "\<lambda>user. get_progress_legacy test_env (ident_id user)" db0]
        session_guard_rejects
          [of "Some ''Bearer forged''" test_env
              "\<lambda>user. get_progress_legacy test_env (ident_id user)" db0]
  by (simp add: extract_token_def nth_opt_def)

section \<open>Registration\<close>

lemma rollback_rows [simp]:
  "users (rollback db w) = users db"
  "device_registrations (rollback db w) = device_registrations db"
  "progress (rollback db w) = progress db"
  by (simp_all add: rollback_def)

lemma rollback_same [simp]: "rollback db db = db"
  by (simp add: rollback_def)


lemma query_cases:
  "query e k stmt w = (r, w') \<Longrightarrow>
     (\<exists>err. fault e k = Some err \<and> r = Inl err \<and> w' = w) \<or>
     (fault e k = None \<and> stmt w = (r, w'))"
  by (auto simp: query_def split: option.splits)

subsection \<open>A failed registration leaves no row\<close>

lemma register_try_rows:
  assumes "register_try e u h d db = (r, db')"
  shows "(\<exists>resp. r = Inr resp \<and> status resp = 201) \<or>
         (users db' = users db \<and> device_registrations db' = device_registrations db \<and>
          progress db' = progress db)"
  using assms
  by (auto simp: register_try_def query_def res_json_def
           split: option.splits sum.splits prod.splits if_splits)

lemma register_transaction_rows:
  assumes "register_transaction e u h d db = (r, db')"
  shows "(\<exists>resp. r = Inr resp \<and> status resp = 201) \<or>
         (users db' = users db \<and> device_registrations db' = device_registrations db \<and>
          progress db' = progress db)"
  using assms register_try_rows [of e u h d db]
  by (auto simp: register_transaction_def split: option.splits sum.splits prod.splits)

lemma register_not_201_rows:
  assumes a: "register e b db = (resp, db')" and n: "status resp \<noteq> 201"
  shows "users db' = users db \<and> device_registrations db' = device_registrations db \<and>
         progress db' = progress db"
proof (cases "username b")
  case None
  with a show ?thesis by (auto simp: register_def)
next
  case u: (Some u)
  show ?thesis
  proof (cases "password b")
    case None
    with a u show ?thesis by (auto simp: register_def)
  next
    case p: (Some p)
    show ?thesis
    proof (cases "deviceId b")
      case None
      with a u p show ?thesis by (auto simp: register_def)
    next
      case d: (Some d)
      obtain r dbt where t: "register_transaction e u (bcrypt_hash e p) d db = (r, dbt)"
        by (cases "register_transaction e u (bcrypt_hash e p) d db")
      from register_transaction_rows [OF t] a n u p d t show ?thesis
        by (auto simp: register_def split: if_splits option.splits sum.splits)
    qed
  qed
qed

lemma register_missing_field:
  assumes "username b \<in> {None, Some []} \<or> password b \<in> {None, Some []} \<or>
           deviceId b \<in> {None, Some []}"
  shows "register e b db = (res_json 400 (error_json MsgFieldsRequired), db)"
  using assms by (auto simp: register_def split: option.splits)

text \<open>
  C2. Whenever a registration request is answered with a status other than 201 (a missing
  field, the device conflict, the username conflict, or any awaited call that rejects, at
  any step), the tables \<open>users\<close>, \<open>device_registrations\<close> and \<open>progress\<close> hold exactly the
  rows they held before the request. In particular a request with a missing or empty field
  is answered 400 and the database is untouched.
\<close>

theorem register_failure_persists_nothing:
  "(register e b db = (resp, db') \<and> status resp \<noteq> 201 \<longrightarrow>
      users db' = users db \<and> device_registrations db' = device_registrations db \<and>
      progress db' = progress db) \<and>
   (username b \<in> {None, Some []} \<or> password b \<in> {None, Some []} \<or>
    deviceId b \<in> {None, Some []} \<longrightarrow>
      register e b db = (res_json 400 (error_json MsgFieldsRequired), db))"
  using register_not_201_rows [of e b db resp db'] register_missing_field [of b e db]
  by blast

text \<open>
  A registration whose last insert fails after the user and the device rows were written
  in the transaction, and a registration without \<open>deviceId\<close>.
\<close>

theorem register_failure_persists_nothing_witness:
  "register (failing InsertProgress JsError) alice db0 =
     (res_json 500 (error_json MsgServerError),
      db0\<lparr>users_id_seq := 2, device_registrations_id_seq := 2\<rparr>) \<and>
   users (db0\<lparr>users_id_seq := 2, device_registrations_id_seq := 2\<rparr>) = users db0 \<and>
   device_registrations (db0\<lparr>users_id_seq := 2, device_registrations_id_seq := 2\<rparr>) =
     device_registrations db0 \<and>
   progress (db0\<lparr>users_id_seq := 2, device_registrations_id_seq := 2\<rparr>) = progress db0 \<and>
   register test_env \<lparr>username = Some ''bob'', password = Some ''hunter2'', deviceId = None\<rparr>
     db0 = (res_json 400 (error_json MsgFieldsRequired), db0)"
proof -
  let ?db = "db0\<lparr>users_id_seq := 2, device_registrations_id_seq := 2\<rparr>"
  let ?bob = "\<lparr>username = Some ''bob'', password = Some ''hunter2'', deviceId = None\<rparr>"
  have 1: "register (failing InsertProgress JsError) alice db0 =
             (res_json 500 (error_json MsgServerError), ?db) \<and>
           status (res_json 500 (error_json MsgServerError)) \<noteq> 201"
    by (simp add: register_alice_progress_fails res_json_def)
  have 2: "username ?bob \<in> {None, Some []} \<or> password ?bob \<in> {None, Some []} \<or>
           deviceId ?bob \<in> {None, Some []}"
    by simp
  from 1 register_failure_persists_nothing
           [of "failing InsertProgress JsError" alice db0
               "res_json 500 (error_json MsgServerError)" ?db]
  have 3: "users ?db = users db0 \<and> device_registrations ?db = device_registrations db0 \<and>
           progress ?db = progress db0"
    by blast
  from 2 register_failure_persists_nothing [of test_env ?bob db0]
  have 4: "register test_env ?bob db0 = (res_json 400 (error_json MsgFieldsRequired), db0)"
    by blast
  from 1 3 4 show ?thesis by blast
qed

subsection \<open>A registration answered 201 has written its three rows\<close>

lemma insert_user_ok:
  "insert_user t u h w = (Inr row, w') \<Longrightarrow>
     \<exists>u' h'. varchar 50 u = Inr u' \<and> varchar 255 h = Inr h' \<and>
       row = \<lparr>users_id = users_id_seq w, users_username = u', users_password = h',
              users_created_at = t\<rparr> \<and>
       w' = w\<lparr>users_id_seq := Suc (users_id_seq w), users := users w @ [row]\<rparr>"
  by (auto simp: insert_user_def Let_def split: if_splits sum.splits)

lemma insert_device_ok:
  "insert_device t d uid w = (Inr x, w') \<Longrightarrow>
     \<exists>d'. varchar 255 d = Inr d' \<and>
       d' \<notin> devreg_device_id ` set (device_registrations w) \<and>
       w' = w\<lparr>device_registrations_id_seq := Suc (device_registrations_id_seq w),
              device_registrations := device_registrations w @
                [\<lparr>devreg_id = device_registrations_id_seq w, devreg_device_id = d',
                  devreg_user_id = uid, devreg_created_at = t\<rparr>]\<rparr>"
  by (auto simp: insert_device_def Let_def split: if_splits sum.splits)

lemma insert_progress_ok:
  "insert_progress t uid j w = (Inr x, w') \<Longrightarrow>
     w' = w\<lparr>progress := (progress w)(uid \<mapsto> \<lparr>progress_data = j, progress_updated_at = t\<rparr>)\<rparr>"
  by (auto simp: insert_progress_def split: if_splits)

lemma register_try_201:
  assumes "register_try e u h d db = (Inr resp, db')" and "status resp = 201"
  shows "\<exists>u' h' d'. varchar 50 u = Inr u' \<and> varchar 255 h = Inr h' \<and> varchar 255 d = Inr d' \<and>
         d' \<notin> devreg_device_id ` set (device_registrations db) \<and>
         users db' = users db @ [\<lparr>users_id = users_id_seq db, users_username = u',
                                   users_password = h', users_created_at = now e\<rparr>] \<and>
         device_registrations db' = device_registrations db @
           [\<lparr>devreg_id = device_registrations_id_seq db, devreg_device_id = d',
             devreg_user_id = users_id_seq db, devreg_created_at = now e\<rparr>] \<and>
         progress db' = (progress db)(users_id_seq db \<mapsto>
           \<lparr>progress_data = emptyProgress, progress_updated_at = now e\<rparr>)"
  using assms
  apply (simp add: register_try_def res_json_def
           split: option.splits sum.splits prod.splits if_splits)
  apply (auto dest!: query_cases insert_user_ok insert_device_ok insert_progress_ok)
  done


subsection \<open>One registration per device\<close>



lemma insert_user_devices:
  "insert_user t u h w = (r, w') \<Longrightarrow> device_registrations w' = device_registrations w"
  by (auto simp: insert_user_def Let_def split: if_splits sum.splits)

lemma insert_device_devices:
  "insert_device t d uid w = (r, w') \<Longrightarrow>
     set (device_registrations w) \<subseteq> set (device_registrations w')"
  by (auto simp: insert_device_def Let_def split: if_splits sum.splits)

lemma insert_progress_devices:
  "insert_progress t uid j w = (r, w') \<Longrightarrow> device_registrations w' = device_registrations w"
  by (auto simp: insert_progress_def split: if_splits)

text \<open>The unique constraint: no row is inserted for a device id that is taken.\<close>

lemma insert_device_taken:
  "device_taken d w \<Longrightarrow> insert_device t d uid w = (r, w') \<Longrightarrow> \<exists>err. r = Inl err"
  by (auto simp: insert_device_def device_taken_def Let_def split: if_splits sum.splits)






text \<open>Nor do the handlers of part_000 that write a progress row.\<close>

lemma get_progress_api_devices:
  "get_progress_api e uid db = (r, db') \<Longrightarrow> device_registrations db' = device_registrations db"
  by (auto simp: get_progress_api_def query_def insert_progress_def
           split: option.splits if_splits)

lemma post_progress_api_devices:
  "post_progress_api e uid j db = (r, db') \<Longrightarrow>
     device_registrations db' = device_registrations db"
  by (auto simp: post_progress_api_def query_def upsert_progress_def
           split: option.splits if_splits sum.splits)



text \<open>
  A registration with a device id that is taken is never answered 201: either the device
  check finds the row, or the insert into \<open>device_registrations\<close> violates the constraint.
\<close>

lemma register_try_taken:
  assumes "device_taken d db" and "register_try e u h d db = (r, db')"
  shows "\<forall>resp. r = Inr resp \<longrightarrow> status resp \<noteq> 201"
proof (intro allI impI)
  fix resp
  assume r: "r = Inr resp"
  show "status resp \<noteq> 201"
  proof
    assume "status resp = 201"
    with assms(2) r register_try_201 [of e u h d db resp db']
    obtain d' where "varchar 255 d = Inr d'"
      "d' \<notin> devreg_device_id ` set (device_registrations db)"
      by blast
    with assms(1) show False by (simp add: device_taken_def)
  qed
qed







subsection \<open>A uniqueness violation raised by the insert into device_registrations\<close>

text \<open>
  C6. The claim does not hold of the code. When the device check finds no row, the user row
  is inserted, and the insert into \<open>device_registrations\<close> itself raises the uniqueness
  violation 23505 (a concurrent registration with the same \<open>deviceId\<close> has committed in
  between), the handler answers 409 with the message that the username already exists, not
  the device conflict 403. Nothing of the request stays in the tables.
\<close>

theorem device_insert_violation_is_reported_as_username:
  assumes "username b = Some u" and "u \<noteq> []" and "password b = Some p" and "p \<noteq> []"
    and "deviceId b = Some d" and "d \<noteq> []"
    and "fault e BcryptHash = None" and "fault e PoolConnect = None" and "fault e Begin = None"
    and "fault e SelectDevice = None" and "fault e InsertUser = None"
    and "fault e RollbackCatch = None"
    and "\<not> isRegistered d db"
    and "fst (insert_user (now e) u (bcrypt_hash e p) db) = Inr newUser"
    and "fault e InsertDevice = Some (DbError ''23505'')"
  shows "fst (register e b db) = res_json 409 (error_json MsgUsernameExists) \<and>
         fst (register e b db) \<noteq> res_json 403 (error_json MsgDeviceAlreadyRegistered) \<and>
         users (snd (register e b db)) = users db \<and>
         device_registrations (snd (register e b db)) = device_registrations db \<and>
         progress (snd (register e b db)) = progress db"
proof -
  obtain w1 where "insert_user (now e) u (bcrypt_hash e p) db = (Inr newUser, w1)"
    using assms(14) by (cases "insert_user (now e) u (bcrypt_hash e p) db") auto
  with assms show ?thesis
    by (simp add: register_def register_transaction_def register_try_def register_catch_def
          query_def isRegistered_def res_json_def error_json_def)
qed

text \<open>\<open>bob\<close> registers on the empty database and the device insert raises 23505.\<close>

theorem device_insert_violation_is_reported_as_username_witness:
  "fst (register (failing InsertDevice (DbError ''23505''))
          \<lparr>username = Some ''bob'', password = Some ''hunter2'', deviceId = Some ''device-1''\<rparr>
          db0) = res_json 409 (error_json MsgUsernameExists)"
proof -
  let ?bob = "\<lparr>username = Some ''bob'', password = Some ''hunter2'',
               deviceId = Some ''device-1''\<rparr>"
  let ?e = "failing InsertDevice (DbError ''23505'')"
  have u: "fst (insert_user (now ?e) ''bob'' (bcrypt_hash ?e ''hunter2'') db0) =
             Inr \<lparr>users_id = 1, users_username = ''bob'', users_password = ''$2b$10$hunter2'',
                  users_created_at = 7\<rparr>"
    by (simp add: insert_user_def Let_def)
  have n: "\<not> isRegistered ''device-1'' db0"
    by (simp add: isRegistered_def select_device_def)
  show ?thesis
    using device_insert_violation_is_reported_as_username
            [of ?bob "''bob''" "''hunter2''" "''device-1''" ?e db0, OF _ _ _ _ _ _ _ _ _ _ _ _ n u]
    by simp
qed

section \<open>Login\<close>

text \<open>
  The router of part_000 answers an unknown username and a wrong password with one and the
  same response.
\<close>

lemma login_api_no_enumeration:
  assumes "fault e SelectUser = None"
    and "select_user (username b1) db = []"
    and "select_user (username b2) db = user # rest"
    and "bcrypt_compare e (password b2) (users_password user) = Inr False"
  shows "login_api e b1 db = res_send 401 MsgBadCredentials \<and>
         login_api e b2 db = res_send 401 MsgBadCredentials"
  using assms by (simp add: login_api_def)

lemma login_api_failure_generic:
  "status (login_api e b db) = 401 \<Longrightarrow> login_api e b db = res_send 401 MsgBadCredentials"
  by (auto simp: login_api_def res_send_def
           split: option.splits list.splits sum.splits bool.splits)

text \<open>
  C3. The claim does not hold of \<open>POST /api/login\<close> in server.js (nor of \<open>POST /login\<close> in
  part_001): a username without a row is answered 400 with the message "user not found", a
  wrong password for an existing username is answered 401 with the message "the password
  is not correct". Status and body both differ, so the response tells whether the username
  exists. (The handler of part_000 gives the identical answer, see
  \<open>login_api_no_enumeration\<close>.)
\<close>

theorem login_legacy_distinguishes:
  assumes "fault e SelectUser = None"
    and "select_user (username b1) db = []"
    and "select_user (username b2) db = user # rest"
    and "bcrypt_compare e (password b2) (users_password user) = Inr False"
  shows "login_legacy e b1 db = res_json 400 (error_json MsgUserNotFound) \<and>
         login_legacy e b2 db = res_json 401 (error_json MsgWrongPassword) \<and>
         login_legacy e b1 db \<noteq> login_legacy e b2 db"
  using assms by (simp add: login_legacy_def res_json_def)

text \<open>With \<open>alice\<close> registered: a login as \<open>mallory\<close>, and a login as \<open>alice\<close> with a guess.\<close>

theorem login_legacy_distinguishes_witness:
  "login_legacy test_env \<lparr>username = Some ''mallory'', password = Some ''guess'', deviceId = None\<rparr>
     db_alice = res_json 400 (error_json MsgUserNotFound) \<and>
   login_legacy test_env \<lparr>username = Some ''alice'', password = Some ''guess'', deviceId = None\<rparr>
     db_alice = res_json 401 (error_json MsgWrongPassword)"
  using login_legacy_distinguishes
    [of test_env "\<lparr>username = Some ''mallory'', password = Some ''guess'', deviceId = None\<rparr>"
        db_alice "\<lparr>username = Some ''alice'', password = Some ''guess'', deviceId = None\<rparr>"
        "\<lparr>users_id = 1, users_username = ''alice'', users_password = ''$2b$10$secret'',
          users_created_at = 7\<rparr>" "[]"]
  by (simp add: select_user_alice)

text \<open>
  C9, as amended. Neither login handler checks that its fields are present, and neither has
  a 400 answer for a missing field (part_000 never answers 400; the only 400 of server.js
  is "user not found"). A request without \<open>username\<close>, and a request without \<open>password\<close>
  whose username has no row, get the very response of a request with an unknown username.
  A request without \<open>password\<close> whose username has a row is decided by \<open>bcrypt.compare\<close> on
  the \<open>undefined\<close> password: when it rejects, the answer is the 500 server error; when it
  resolves to false, the answer is the one for a wrong password.
\<close>

theorem login_missing_field:
  "((username b = None \<or> (password b = None \<and> select_user (username b) db = [])) \<and>
    select_user (username b') db = [] \<longrightarrow>
      login_api e b db = login_api e b' db \<and> login_legacy e b db = login_legacy e b' db) \<and>
   (\<forall>user rest err.
      fault e SelectUser = None \<and>
      password b = None \<and> select_user (username b) db = user # rest \<and>
      bcrypt_compare e None (users_password user) = Inl err \<longrightarrow>
        login_api e b db = res_send 500 MsgServerError \<and>
        login_legacy e b db = res_json 500 (error_json MsgServerError)) \<and>
   (\<forall>user rest.
      fault e SelectUser = None \<and>
      password b = None \<and> select_user (username b) db = user # rest \<and>
      bcrypt_compare e None (users_password user) = Inr False \<longrightarrow>
        login_api e b db = res_send 401 MsgBadCredentials \<and>
        login_legacy e b db = res_json 401 (error_json MsgWrongPassword)) \<and>
   status (login_api e b db) \<noteq> 400 \<and>
   (status (login_legacy e b db) = 400 \<longrightarrow> select_user (username b) db = [])"
  by (auto simp: login_api_def login_legacy_def res_send_def res_json_def
           split: option.splits list.splits sum.splits bool.splits)

text \<open>
  With \<open>alice\<close> registered: a login without username against a login as \<open>mallory\<close>, and a
  login as \<open>alice\<close> without password.
\<close>

theorem login_missing_field_witness:
  "login_api test_env \<lparr>username = None, password = Some ''guess'', deviceId = None\<rparr> db_alice =
     login_api test_env \<lparr>username = Some ''mallory'', password = Some ''guess'', deviceId = None\<rparr>
       db_alice \<and>
   login_legacy test_env \<lparr>username = None, password = Some ''guess'', deviceId = None\<rparr> db_alice =
     login_legacy test_env \<lparr>username = Some ''mallory'', password = Some ''guess'', deviceId = None\<rparr>
       db_alice \<and>
   login_api test_env \<lparr>username = Some ''alice'', password = None, deviceId = None\<rparr> db_alice =
     res_send 500 MsgServerError \<and>
   login_legacy test_env \<lparr>username = Some ''alice'', password = None, deviceId = None\<rparr> db_alice =
     res_json 500 (error_json MsgServerError)"
  using login_missing_field
    [of "\<lparr>username = None, password = Some ''guess'', deviceId = None\<rparr>"
        db_alice "\<lparr>username = Some ''mallory'', password = Some ''guess'', deviceId = None\<rparr>"
        test_env]
    login_missing_field
    [of "\<lparr>username = Some ''alice'', password = None, deviceId = None\<rparr>" db_alice _ test_env]
  by (simp add: select_user_alice)

text \<open>
  The claim as stated fails: with \<open>alice\<close> registered and a \<open>bcrypt.compare\<close> that rejects an
  \<open>undefined\<close> password, a login as \<open>alice\<close> without password is answered with the 500
  server error, which is neither the answer for an unknown username nor the answer for a
  wrong password, in part_000 and in server.js alike.
\<close>

theorem login_missing_password_counterexample:
  "login_api test_env \<lparr>username = Some ''alice'', password = None, deviceId = None\<rparr> db_alice =
     res_send 500 MsgServerError \<and>
   login_api test_env \<lparr>username = Some ''mallory'', password = Some ''guess'', deviceId = None\<rparr>
     db_alice = res_send 401 MsgBadCredentials \<and>
   login_api test_env \<lparr>username = Some ''alice'', password = Some ''guess'', deviceId = None\<rparr>
     db_alice = res_send 401 MsgBadCredentials \<and>
   res_send 500 MsgServerError \<noteq> res_send 401 MsgBadCredentials \<and>
   login_legacy test_env \<lparr>username = Some ''alice'', password = None, deviceId = None\<rparr> db_alice =
     res_json 500 (error_json MsgServerError) \<and>
   login_legacy test_env \<lparr>username = Some ''mallory'', password = Some ''guess'', deviceId = None\<rparr>
     db_alice = res_json 400 (error_json MsgUserNotFound) \<and>
   login_legacy test_env \<lparr>username = Some ''alice'', password = Some ''guess'', deviceId = None\<rparr>
     db_alice = res_json 401 (error_json MsgWrongPassword)"
  by (simp add: login_api_def login_legacy_def select_user_alice res_send_def res_json_def)

section \<open>Progress\<close>

text \<open>
  C4, as amended. For a user that has a row in \<open>users\<close> and none in \<open>progress\<close>, when the
  storage calls succeed: \<open>GET /progress\<close> of part_000 inserts the document
  \<open>{settings: {theme: "light", currentWeekIndex: 0}, lectures: {}}\<close> for the user and returns
  it with status 200 and the header \<open>X-Notice: DATA_INITIALIZED\<close>; a second \<open>GET\<close> returns
  the same document from the row and writes nothing. \<open>GET /api/progress\<close> of server.js
  returns \<open>{settings: {theme: "light"}, lectures: {}}\<close> and writes nothing.
\<close>

theorem get_progress_initializes:
  assumes "progress db uid = None" and "uid \<in> users_id ` set (users db)"
    and "fault e SelectProgress = None" and "fault e InsertProgress = None"
    and "fault e' SelectProgress = None"
  shows "get_progress_api e uid db =
           (\<lparr>status = 200, headers = [(''X-Notice'', ''DATA_INITIALIZED'')], cookies = [],
             body = Json empty\<rparr>,
            db\<lparr>progress := (progress db)(uid \<mapsto>
                  \<lparr>progress_data = empty, progress_updated_at = now e\<rparr>)\<rparr>) \<and>
         get_progress_api e' uid (snd (get_progress_api e uid db)) =
           (res_json 200 empty, snd (get_progress_api e uid db)) \<and>
         get_progress_legacy e uid db = (res_json 200 emptyProgress, db)"
  using assms
  by (simp add: get_progress_api_def get_progress_legacy_def query_def insert_progress_def)

theorem get_progress_initializes_witness:
  "get_progress_api test_env 1 db_legacy =
     (\<lparr>status = 200, headers = [(''X-Notice'', ''DATA_INITIALIZED'')], cookies = [],
       body = Json empty\<rparr>,
      db_legacy\<lparr>progress := (progress db_legacy)(1 \<mapsto>
            \<lparr>progress_data = empty, progress_updated_at = 7\<rparr>)\<rparr>) \<and>
   get_progress_legacy test_env 1 db_legacy = (res_json 200 emptyProgress, db_legacy)"
  using get_progress_initializes [of db_legacy 1 test_env test_env]
  by simp

text \<open>
  The claim as stated fails in both handlers: for user 1 of \<open>db_legacy\<close>, who has no
  progress row, part_000 returns a document that is not
  \<open>{settings: {theme: "light"}, lectures: {}}\<close>, and server.js returns that document but
  leaves the user without a row; and when the insert of part_000 rejects, the answer is 500
  and no row exists.
\<close>

theorem get_progress_default_counterexample:
  "progress db_legacy 1 = None \<and>
   body (fst (get_progress_api test_env 1 db_legacy)) = Json empty \<and>
   empty \<noteq> JObj [(''settings'', JObj [(''theme'', JStr ''light'')]), (''lectures'', JObj [])] \<and>
   body (fst (get_progress_legacy test_env 1 db_legacy)) =
     Json (JObj [(''settings'', JObj [(''theme'', JStr ''light'')]), (''lectures'', JObj [])]) \<and>
   progress (snd (get_progress_legacy test_env 1 db_legacy)) 1 = None \<and>
   status (fst (get_progress_api (failing InsertProgress JsError) 1 db_legacy)) = 500 \<and>
   progress (snd (get_progress_api (failing InsertProgress JsError) 1 db_legacy)) 1 = None"
  by (simp add: get_progress_api_def get_progress_legacy_def query_def insert_progress_def
        empty_def emptyProgress_def res_json_def)

text \<open>The documents that the guard \<open>!progressData\<close> of \<open>POST /progress\<close> turns away.\<close>

lemma js_not_Some_iff:
  "js_not (Some d) \<longleftrightarrow> d = JNull \<or> d = JBool False \<or> d = JNum 0 \<or> d = JStr []"
  by (cases d) auto

lemma express_json_passes:
  assumes "is_object D \<or> is_array D" and "JSON_parse D = D" and "n \<le> 2 * 1024 * 1024"
  shows "express_json e (JsonBody n D) = Inr (Some D)"
  using assms by (cases D) (auto simp: express_json_def)

lemma js_not_object_array: "is_object D \<or> is_array D \<Longrightarrow> \<not> js_not (Some D)"
  by (cases D) auto

lemma server_post_authenticated:
  "authenticated e auth uid \<Longrightarrow> express_json e b = Inr pd \<Longrightarrow>
     server e (PostProgress auth b) db = post_progress e uid pd db"
  by (auto simp: authenticated_def authenticateToken_def split: option.splits)

lemma server_get_authenticated:
  "authenticated e auth uid \<Longrightarrow>
     server e (GetProgress auth) db = get_progress_legacy e uid db"
  by (auto simp: authenticated_def authenticateToken_def split: option.splits)

lemma post_progress_saves:
  assumes "\<not> js_not (Some D)"
    and "progress db uid \<noteq> None \<or> uid \<in> users_id ` set (users db)"
    and "fault e UpsertProgress = None"
  shows "post_progress e uid (Some D) db =
           (res_json 200 (JObj [(''success'', JBool True), (''message'', JMsg MsgProgressSaved)]),
            with_progress db uid D (now e))"
  using assms by (auto simp: post_progress_def query_def upsert_progress_def with_progress_def)

lemma post_progress_api_saves:
  assumes "is_object D"
    and "progress db uid \<noteq> None \<or> uid \<in> users_id ` set (users db)"
    and "fault e UpsertProgress = None"
  shows "post_progress_api e uid (Some D) db =
           (res_json 200 (JObj [(''success'', JBool True), (''message'', JMsg MsgProgressSaved)]),
            with_progress db uid D (now e))"
  using assms
  by (cases D) (auto simp: post_progress_api_def query_def upsert_progress_def with_progress_def)

lemma with_progress_simps [simp]:
  "progress (with_progress db uid D t) uid = Some \<lparr>progress_data = D, progress_updated_at = t\<rparr>"
  "users (with_progress db uid D t) = users db"
  "with_progress (with_progress db uid D t) uid D' t' = with_progress db uid D' t'"
  by (simp_all add: with_progress_def)

lemma get_progress_legacy_reads:
  "fault e SelectProgress = None \<Longrightarrow> progress db uid = Some row \<Longrightarrow>
     get_progress_legacy e uid db = (res_json 200 (progress_data row), db)"
  by (simp add: get_progress_legacy_def)

lemma get_progress_api_reads:
  "fault e SelectProgress = None \<Longrightarrow> progress db uid = Some row \<Longrightarrow>
     get_progress_api e uid db = (res_json 200 (progress_data row), db)"
  by (simp add: get_progress_api_def)

text \<open>
  The handler of the router agrees with the one of server.js on every body that is no
  array and no string, number or boolean.
\<close>

lemma post_progress_api_object:
  "progressData = None \<or> progressData = Some JNull \<or> (\<exists>kvs. progressData = Some (JObj kvs)) \<Longrightarrow>
     post_progress_api e uid progressData db = post_progress e uid progressData db"
  by (auto simp: post_progress_api_def post_progress_def query_def split: option.splits)

lemma double_example: "to_double 9007199254740993 = Some 9007199254740992"
  by code_simp

lemma to_double_small: "\<bar>n\<bar> < 2 ^ 53 \<Longrightarrow> to_double n = Some n"
  by (auto simp: to_double_def round_int_def Let_def)

lemma authenticated_alice [simp]:
  "authenticated test_env (Some ''Bearer jwt-alice'') 1"
  "authenticated (failing k err) (Some ''Bearer jwt-alice'') 1"
  "authenticated (test_env\<lparr>now := 9\<rparr>) (Some ''Bearer jwt-alice'') 1"
  by (simp_all add: authenticated_def extract_token_def nth_opt_def test_env_def failing_def)

text \<open>
  C5, as amended. Let \<open>D\<close> be a JSON document that \<open>JSON.parse\<close> reads as it is written (the
  member names of each of its objects are distinct), whose numbers are integers of
  magnitude at most \<open>2 ^ 53 - 1\<close>, without the character U+0000 in a string or a member
  name, nested at most
  100 levels deep and sent as an \<open>application/json\<close> body of at most 2 MB; let the user
  have a row in \<open>users\<close> (or already one in \<open>progress\<close>), let the three requests be
  authenticated as this user and let their storage calls succeed. On server.js, for \<open>D\<close>
  an object or an array, and on the router (part_000 behind the parser of part_002), for
  \<open>D\<close> an object: \<open>POST /progress\<close> with \<open>D\<close> is answered 200 and stores \<open>D\<close> with the time of
  the request; a following \<open>GET /progress\<close> returns exactly \<open>D\<close> and writes nothing;
  replaying the \<open>POST\<close> with the same \<open>D\<close> leaves the same database except that
  \<open>updated_at\<close> of the row is the time of the replay.
\<close>

theorem post_progress_round_trip:
  assumes "JSON_parse D = D" and "n \<le> 2 * 1024 * 1024"
    and "safe_integers D" and "jsonb_takes D"
    and "progress db uid \<noteq> None \<or> uid \<in> users_id ` set (users db)"
    and "authenticated e auth uid" and "fault e UpsertProgress = None"
    and "authenticated e' auth' uid" and "fault e' SelectProgress = None"
    and "authenticated e'' auth'' uid" and "fault e'' UpsertProgress = None"
  shows "(is_object D \<or> is_array D \<longrightarrow>
            server e (PostProgress auth (JsonBody n D)) db =
              (res_json 200 (JObj [(''success'', JBool True), (''message'', JMsg MsgProgressSaved)]),
               with_progress db uid D (now e)) \<and>
            server e' (GetProgress auth') (with_progress db uid D (now e)) =
              (res_json 200 D, with_progress db uid D (now e)) \<and>
            snd (server e'' (PostProgress auth'' (JsonBody n D)) (with_progress db uid D (now e))) =
              with_progress db uid D (now e'')) \<and>
         (is_object D \<longrightarrow>
            api_post_progress e uid (JsonBody n D) db =
              (res_json 200 (JObj [(''success'', JBool True), (''message'', JMsg MsgProgressSaved)]),
               with_progress db uid D (now e)) \<and>
            get_progress_api e' uid (with_progress db uid D (now e)) =
              (res_json 200 D, with_progress db uid D (now e)) \<and>
            snd (api_post_progress e'' uid (JsonBody n D) (with_progress db uid D (now e))) =
              with_progress db uid D (now e''))"
proof (intro conjI impI)
  assume oa: "is_object D \<or> is_array D"
  note pj = express_json_passes [OF oa assms(1) assms(2)]
  note nf = js_not_object_array [OF oa]
  show "server e (PostProgress auth (JsonBody n D)) db =
              (res_json 200 (JObj [(''success'', JBool True), (''message'', JMsg MsgProgressSaved)]),
               with_progress db uid D (now e))"
    using post_progress_saves [OF nf assms(5) assms(7)]
    by (simp del: server.simps add: server_post_authenticated [OF assms(6) pj])
  show "server e' (GetProgress auth') (with_progress db uid D (now e)) =
              (res_json 200 D, with_progress db uid D (now e))"
    using get_progress_legacy_reads [OF assms(9), of "with_progress db uid D (now e)" uid]
    by (simp del: server.simps add: server_get_authenticated [OF assms(8)])
  have "progress (with_progress db uid D (now e)) uid \<noteq> None \<or>
        uid \<in> users_id ` set (users (with_progress db uid D (now e)))"
    by simp
  from post_progress_saves [OF nf this assms(11)]
  show "snd (server e'' (PostProgress auth'' (JsonBody n D)) (with_progress db uid D (now e))) =
              with_progress db uid D (now e'')"
    by (simp del: server.simps add: server_post_authenticated [OF assms(10) pj])
next
  assume o: "is_object D"
  then have oa: "is_object D \<or> is_array D" by simp
  note pj = express_json_passes [OF oa assms(1) assms(2)]
  show "api_post_progress e uid (JsonBody n D) db =
              (res_json 200 (JObj [(''success'', JBool True), (''message'', JMsg MsgProgressSaved)]),
               with_progress db uid D (now e))"
    using post_progress_api_saves [OF o assms(5) assms(7)] by (simp add: api_post_progress_def pj)
  show "get_progress_api e' uid (with_progress db uid D (now e)) =
              (res_json 200 D, with_progress db uid D (now e))"
    using get_progress_api_reads [OF assms(9), of "with_progress db uid D (now e)" uid] by simp
  have "progress (with_progress db uid D (now e)) uid \<noteq> None \<or>
        uid \<in> users_id ` set (users (with_progress db uid D (now e)))"
    by simp
  from post_progress_api_saves [OF o this assms(11)]
  show "snd (api_post_progress e'' uid (JsonBody n D) (with_progress db uid D (now e))) =
              with_progress db uid D (now e'')"
    by (simp add: api_post_progress_def pj)
qed


text \<open>\<open>alice\<close> saves \<open>{"lectures": {}}\<close> and reads it back, on server.js and on the router.\<close>

theorem post_progress_round_trip_witness:
  "server test_env (PostProgress (Some ''Bearer jwt-alice'')
      (JsonBody 15 (JObj [(''lectures'', JObj [])]))) db_alice =
     (res_json 200 (JObj [(''success'', JBool True), (''message'', JMsg MsgProgressSaved)]),
      with_progress db_alice 1 (JObj [(''lectures'', JObj [])]) (now test_env)) \<and>
   server test_env (GetProgress (Some ''Bearer jwt-alice''))
      (with_progress db_alice 1 (JObj [(''lectures'', JObj [])]) (now test_env)) =
     (res_json 200 (JObj [(''lectures'', JObj [])]),
      with_progress db_alice 1 (JObj [(''lectures'', JObj [])]) (now test_env)) \<and>
   api_post_progress test_env 1 (JsonBody 15 (JObj [(''lectures'', JObj [])])) db_alice =
     (res_json 200 (JObj [(''success'', JBool True), (''message'', JMsg MsgProgressSaved)]),
      with_progress db_alice 1 (JObj [(''lectures'', JObj [])]) (now test_env)) \<and>
   get_progress_api test_env 1
      (with_progress db_alice 1 (JObj [(''lectures'', JObj [])]) (now test_env)) =
     (res_json 200 (JObj [(''lectures'', JObj [])]),
      with_progress db_alice 1 (JObj [(''lectures'', JObj [])]) (now test_env))"
proof -
  let ?D = "JObj [(''lectures'', JObj [])]"
  have 1: "JSON_parse ?D = ?D" "(15::nat) \<le> 2 * 1024 * 1024" "safe_integers ?D" "jsonb_takes ?D"
    by (simp_all add: jsonb_takes_def)
  have 2: "progress db_alice 1 \<noteq> None \<or> 1 \<in> users_id ` set (users db_alice)"
    by simp
  have 3: "authenticated test_env (Some ''Bearer jwt-alice'') 1"
    "fault test_env UpsertProgress = None" "fault test_env SelectProgress = None"
    by (rule authenticated_alice) simp_all
  have 4: "is_object ?D" "is_object ?D \<or> is_array ?D"
    by simp_all
  from post_progress_round_trip [OF 1 2 3(1) 3(2) 3(1) 3(3) 3(1) 3(2)] 4
  show ?thesis by blast
qed

text \<open>
  The claim as stated fails, each time for \<open>alice\<close>, who is registered. The document \<open>true\<close>
  is answered 400 by the body parser and the next \<open>GET\<close> returns the document stored
  before. On the router the document \<open>[]\<close> is answered 200 and read back as \<open>{}\<close>, and
  \<open>[1, 2]\<close> is answered 500. The number \<open>2 ^ 53 + 1\<close> is stored and read back as \<open>2 ^ 53\<close>,
  and of a member name written twice only the last value. Replaying the \<open>POST\<close> of \<open>{}\<close> at
  a later time changes the stored row (its \<open>updated_at\<close>). A body of 3000000 bytes is
  answered 413, and a \<open>POST\<close> whose storage call rejects is answered 500 and stores nothing.
\<close>

theorem post_progress_round_trip_counterexample:
  "server test_env (PostProgress (Some ''Bearer jwt-alice'') (JsonBody 4 (JBool True))) db_alice =
     (error_page 400, db_alice) \<and>
   server test_env (GetProgress (Some ''Bearer jwt-alice'')) db_alice =
     (res_json 200 emptyProgress, db_alice) \<and>
   res_json 200 emptyProgress \<noteq> res_json 200 (JBool True) \<and>
   api_post_progress test_env 1 (JsonBody 2 (JArr [])) db_alice =
     (res_json 200 (JObj [(''success'', JBool True), (''message'', JMsg MsgProgressSaved)]),
      with_progress db_alice 1 (JObj []) 7) \<and>
   get_progress_api test_env 1 (with_progress db_alice 1 (JObj []) 7) =
     (res_json 200 (JObj []), with_progress db_alice 1 (JObj []) 7) \<and>
   res_json 200 (JObj []) \<noteq> res_json 200 (JArr []) \<and>
   api_post_progress test_env 1 (JsonBody 5 (JArr [JNum 1, JNum 2])) db_alice =
     (res_json 500 (error_json MsgServerError), db_alice) \<and>
   server test_env (PostProgress (Some ''Bearer jwt-alice'')
      (JsonBody 22 (JObj [(''n'', JNum 9007199254740993)]))) db_alice =
     (res_json 200 (JObj [(''success'', JBool True), (''message'', JMsg MsgProgressSaved)]),
      with_progress db_alice 1 (JObj [(''n'', JNum 9007199254740992)]) 7) \<and>
   server test_env (PostProgress (Some ''Bearer jwt-alice'')
      (JsonBody 13 (JObj [(''a'', JNum 1), (''a'', JNum 2)]))) db_alice =
     (res_json 200 (JObj [(''success'', JBool True), (''message'', JMsg MsgProgressSaved)]),
      with_progress db_alice 1 (JObj [(''a'', JNum 2)]) 7) \<and>
   progress (snd (server (test_env\<lparr>now := 9\<rparr>)
                    (PostProgress (Some ''Bearer jwt-alice'') (JsonBody 2 (JObj [])))
                    (with_progress db_alice 1 (JObj []) 7))) 1 \<noteq>
     progress (with_progress db_alice 1 (JObj []) 7) 1 \<and>
   server test_env (PostProgress (Some ''Bearer jwt-alice'') (JsonBody 3000000 (JObj [])))
      db_alice = (error_page 413, db_alice) \<and>
   server (failing UpsertProgress JsError)
      (PostProgress (Some ''Bearer jwt-alice'') (JsonBody 2 (JObj []))) db_alice =
     (res_json 500 (error_json MsgServerError), db_alice)"
proof -
  let ?auth = "Some ''Bearer jwt-alice''"
  let ?saved = "res_json 200 (JObj [(''success'', JBool True), (''message'', JMsg MsgProgressSaved)])"
  have a: "authenticated test_env ?auth 1" "authenticated (failing UpsertProgress JsError) ?auth 1"
    "authenticated (test_env\<lparr>now := 9\<rparr>) ?auth 1"
    by (rule authenticated_alice)+
  have 1: "server test_env (PostProgress ?auth (JsonBody 4 (JBool True))) db_alice =
     (error_page 400, db_alice)"
    by (simp add: express_json_def)
  have g: "get_progress_legacy test_env 1 db_alice = (res_json 200 emptyProgress, db_alice)"
    by (simp add: get_progress_legacy_def)
  have 2: "server test_env (GetProgress ?auth) db_alice = (res_json 200 emptyProgress, db_alice)"
    by (simp only: server_get_authenticated [OF a(1)] g)
  have 3: "res_json 200 emptyProgress \<noteq> res_json 200 (JBool True)"
    by (simp add: res_json_def emptyProgress_def)
  have 4: "api_post_progress test_env 1 (JsonBody 2 (JArr [])) db_alice =
     (?saved, with_progress db_alice 1 (JObj []) 7)"
    by (simp add: api_post_progress_def express_json_def post_progress_api_def
          query_def upsert_progress_def with_progress_def)
  have 5: "get_progress_api test_env 1 (with_progress db_alice 1 (JObj []) 7) =
     (res_json 200 (JObj []), with_progress db_alice 1 (JObj []) 7)"
    by (simp add: get_progress_api_def with_progress_def)
  have 6: "res_json 200 (JObj []) \<noteq> res_json 200 (JArr [])"
    by (simp add: res_json_def)
  have 7: "api_post_progress test_env 1 (JsonBody 5 (JArr [JNum 1, JNum 2])) db_alice =
     (res_json 500 (error_json MsgServerError), db_alice)"
    by (simp add: api_post_progress_def express_json_def post_progress_api_def
          query_def to_double_small)
  have e8: "express_json test_env (JsonBody 22 (JObj [(''n'', JNum 9007199254740993)])) =
     Inr (Some (JObj [(''n'', JNum 9007199254740992)]))"
    by (simp add: express_json_def double_example)
  have p8: "post_progress test_env 1 (Some (JObj [(''n'', JNum 9007199254740992)])) db_alice =
     (?saved, with_progress db_alice 1 (JObj [(''n'', JNum 9007199254740992)]) 7)"
    by (simp add: post_progress_def query_def upsert_progress_def with_progress_def)
  have 8: "server test_env (PostProgress ?auth
      (JsonBody 22 (JObj [(''n'', JNum 9007199254740993)]))) db_alice =
     (?saved, with_progress db_alice 1 (JObj [(''n'', JNum 9007199254740992)]) 7)"
    by (simp only: server_post_authenticated [OF a(1) e8] p8)
  have e9: "express_json test_env (JsonBody 13 (JObj [(''a'', JNum 1), (''a'', JNum 2)])) =
     Inr (Some (JObj [(''a'', JNum 2)]))"
    by (simp add: express_json_def to_double_small)
  have p9: "post_progress test_env 1 (Some (JObj [(''a'', JNum 2)])) db_alice =
     (?saved, with_progress db_alice 1 (JObj [(''a'', JNum 2)]) 7)"
    by (simp add: post_progress_def query_def upsert_progress_def with_progress_def)
  have 9: "server test_env (PostProgress ?auth
      (JsonBody 13 (JObj [(''a'', JNum 1), (''a'', JNum 2)]))) db_alice =
     (?saved, with_progress db_alice 1 (JObj [(''a'', JNum 2)]) 7)"
    by (simp only: server_post_authenticated [OF a(1) e9] p9)
  have e10: "express_json (test_env\<lparr>now := 9\<rparr>) (JsonBody 2 (JObj [])) = Inr (Some (JObj []))"
    by (simp add: express_json_def)
  have p10: "progress (snd (post_progress (test_env\<lparr>now := 9\<rparr>) 1 (Some (JObj []))
                    (with_progress db_alice 1 (JObj []) 7))) 1 \<noteq>
     progress (with_progress db_alice 1 (JObj []) 7) 1"
    by (simp add: post_progress_def query_def upsert_progress_def with_progress_def test_env_def)
  have 10: "progress (snd (server (test_env\<lparr>now := 9\<rparr>)
                    (PostProgress ?auth (JsonBody 2 (JObj [])))
                    (with_progress db_alice 1 (JObj []) 7))) 1 \<noteq>
     progress (with_progress db_alice 1 (JObj []) 7) 1"
    unfolding server_post_authenticated [OF a(3) e10] by (rule p10)
  have 11: "server test_env (PostProgress ?auth (JsonBody 3000000 (JObj []))) db_alice =
     (error_page 413, db_alice)"
    by (simp add: express_json_def)
  have e12: "express_json (failing UpsertProgress JsError) (JsonBody 2 (JObj [])) =
     Inr (Some (JObj []))"
    by (simp add: express_json_def)
  have p12: "post_progress (failing UpsertProgress JsError) 1 (Some (JObj [])) db_alice =
     (res_json 500 (error_json MsgServerError), db_alice)"
    by (simp add: post_progress_def query_def)
  have 12: "server (failing UpsertProgress JsError)
      (PostProgress ?auth (JsonBody 2 (JObj []))) db_alice =
     (res_json 500 (error_json MsgServerError), db_alice)"
    by (simp only: server_post_authenticated [OF a(2) e12] p12)
  from 1 2 3 4 5 6 7 8 9 10 11 12 show ?thesis
    by blast
qed



text \<open>
  The empty object \<open>{}\<close> is truthy in JavaScript: it passes the guard and is stored.
\<close>

lemma post_progress_empty_object:
  "post_progress test_env 1 (Some (JObj [])) db_alice =
     (res_json 200 (JObj [(''success'', JBool True), (''message'', JMsg MsgProgressSaved)]),
      db_alice\<lparr>progress := (progress db_alice)(1 \<mapsto>
         \<lparr>progress_data = JObj [], progress_updated_at = 7\<rparr>)\<rparr>)"
  by (simp add: post_progress_def query_def upsert_progress_def)

section \<open>Image proxy\<close>

lemma image_trials_all_fail:
  "list_all (\<lambda>t. attempt_fails (f t)) ts \<Longrightarrow>
     \<exists>hs' st b. image_trials f ts hs lastStatus lastBody = Inr (hs', st, b)"
  by (induction ts arbitrary: hs lastStatus lastBody)
     (auto simp: Let_def split: fetched.splits sum.splits if_splits)

lemma map_of_setHeader [simp]: "map_of (setHeader k v hs) k = Some v"
  by (simp add: setHeader_def)

lemma map_of_setHeader_other: "k' \<noteq> k \<Longrightarrow> map_of (setHeader k v hs) k' = map_of hs k'"
  by (induction hs) (auto simp: setHeader_def)

text \<open>
  C10. For a \<open>GET /image\<close> request whose \<open>url\<close> parses, has the protocol \<open>https:\<close> and an
  allowed host: when every one of the three upstream attempts fails (the fetch rejects, the
  upstream status is not 2xx, or the body of a 2xx response cannot be read), the answer has
  status 200, the header \<open>Content-Type: image/svg+xml; charset=utf-8\<close> and the placeholder
  SVG as its body, which shows the last upstream status, also sent as \<open>X-Upstream-Status\<close>.
\<close>

theorem image_placeholder_on_failure:
  assumes "q = Some raw" and "raw \<noteq> []" and "parse_url raw = Some urlObj"
    and "protocol urlObj = ''https:''" and "isAllowedHost (hostname urlObj)"
    and "list_all (\<lambda>t. attempt_fails (fetch (href urlObj) t)) trials"
  shows "status (image_proxy parse_url fetch q) = 200 \<and>
         map_of (headers (image_proxy parse_url fetch q)) ''Content-Type'' =
           Some ''image/svg+xml; charset=utf-8'' \<and>
         (\<exists>lastStatus. body (image_proxy parse_url fetch q) = PlaceholderSvg lastStatus \<and>
            map_of (headers (image_proxy parse_url fetch q)) ''X-Upstream-Status'' =
              Some (string_of_nat lastStatus))"
proof -
  from image_trials_all_fail [OF assms(6), of "[]" 0 "[]"]
  obtain hs' st b where "image_trials (fetch (href urlObj)) trials [] 0 [] = Inr (hs', st, b)"
    by blast
  with assms(1-5) show ?thesis
    by (simp add: image_proxy_def map_of_setHeader_other)
qed

lemma test_host_allowed: "isAllowedHost ''lh3.googleusercontent.com''"
  by code_simp

text \<open>An allowed address whose three attempts fail with 403, an unreadable body and 404.\<close>

theorem image_placeholder_on_failure_witness:
  "status (image_proxy test_parse_url test_fetch
             (Some ''https://lh3.googleusercontent.com/a.png'')) = 200 \<and>
   map_of (headers (image_proxy test_parse_url test_fetch
             (Some ''https://lh3.googleusercontent.com/a.png''))) ''Content-Type'' =
     Some ''image/svg+xml; charset=utf-8''"
proof -
  let ?raw = "''https://lh3.googleusercontent.com/a.png''"
  let ?u = "\<lparr>protocol = ''https:'', hostname = ''lh3.googleusercontent.com'',
             origin = ''https://lh3.googleusercontent.com'', href = ?raw\<rparr>"
  have 1: "Some ?raw = Some ?raw" "?raw \<noteq> []" "test_parse_url ?raw = Some ?u"
    by (simp_all add: test_parse_url_def)
  have 2: "protocol ?u = ''https:''" "isAllowedHost (hostname ?u)"
    by (simp_all add: test_host_allowed)
  have 3: "list_all (\<lambda>t. attempt_fails (test_fetch (href ?u) t)) trials"
    by (simp add: trials_def test_fetch_def ok_def)
  from image_placeholder_on_failure
         [where parse_url = test_parse_url and fetch = test_fetch, OF 1 2 3]
  show ?thesis
    by blast
qed

end
